theory Spec2Isabelle
  imports Main "HOL-Library.Sublist" "HOL-Library.Word" "HOL-Library.Multiset"
begin

text \<open>
  The repository holds two files of the package \<^verbatim>\<open>checker\<close>. The one that follows the
  notes of \<^verbatim>\<open>src/CHECKS.md\<close> runs every operation through the \<^verbatim>\<open>aws\<close> command line tool
  and runs the eight checks of a bucket as goroutines. The one in
  \<^verbatim>\<open>src/unnamed/part_001\<close> keeps an SDK client, which it asks for the public access
  block and the bucket policy, and runs the checks one after the other. The functions
  the two files share word for word are defined once here; where they differ, the
  function of the first file keeps its name and that of the second carries the suffix
  \<open>_sdk\<close>. The context argument of the checker's functions is used by none of them
  and is left out. The second file reads through a pointer it has not tested for nil;
  its functions that can panic there return a \<open>result\<close>, a value or a panic.
\<close>

section \<open>Go library functions the checker relies on\<close>

text \<open>
  A Go string is a sequence of bytes, here a \<open>string\<close> (a list of 8-bit characters).
  \<open>Contains\<close> is \<^verbatim>\<open>strings.Contains\<close>: the second string occurs as a contiguous run
  of bytes of the first.
\<close>

fun Contains :: "string \<Rightarrow> string \<Rightarrow> bool" where
  "Contains [] substr = (substr = [])"
| "Contains (c # s) substr = (prefix substr (c # s) \<or> Contains s substr)"

text \<open>
  \<^verbatim>\<open>strings.TrimSpace\<close> removes leading and trailing white space as Unicode defines
  it. On the bytes of a string these are the six ASCII characters tab, line feed,
  vertical tab, form feed, carriage return and space, and the UTF-8 encodings of
  U+0085, U+00A0, U+1680, U+2000 to U+200A, U+2028, U+2029, U+202F, U+205F and U+3000.
  A byte sequence that is no valid encoding of one of them stops the trimming.
\<close>

definition unicodeSpaces :: "string list" where
  "unicodeSpaces =
    [[CHR 0x09], [CHR 0x0A], [CHR 0x0B], [CHR 0x0C], [CHR 0x0D], [CHR 0x20],
     [CHR 0xC2, CHR 0x85], [CHR 0xC2, CHR 0xA0],
     [CHR 0xE1, CHR 0x9A, CHR 0x80],
     [CHR 0xE2, CHR 0x80, CHR 0x80], [CHR 0xE2, CHR 0x80, CHR 0x81],
     [CHR 0xE2, CHR 0x80, CHR 0x82], [CHR 0xE2, CHR 0x80, CHR 0x83],
     [CHR 0xE2, CHR 0x80, CHR 0x84], [CHR 0xE2, CHR 0x80, CHR 0x85],
     [CHR 0xE2, CHR 0x80, CHR 0x86], [CHR 0xE2, CHR 0x80, CHR 0x87],
     [CHR 0xE2, CHR 0x80, CHR 0x88], [CHR 0xE2, CHR 0x80, CHR 0x89],
     [CHR 0xE2, CHR 0x80, CHR 0x8A],
     [CHR 0xE2, CHR 0x80, CHR 0xA8], [CHR 0xE2, CHR 0x80, CHR 0xA9],
     [CHR 0xE2, CHR 0x80, CHR 0xAF], [CHR 0xE2, CHR 0x81, CHR 0x9F],
     [CHR 0xE3, CHR 0x80, CHR 0x80]]"

text \<open>The number of bytes of the white-space character a string starts with
  (\<open>spaceWidth\<close>) or ends with (\<open>spaceWidthEnd\<close>); 0 when there is none.\<close>

definition spaceWidth :: "string \<Rightarrow> nat" where
  "spaceWidth s =
    (case List.find (\<lambda>p. prefix p s) unicodeSpaces of None \<Rightarrow> 0 | Some p \<Rightarrow> length p)"

definition spaceWidthEnd :: "string \<Rightarrow> nat" where
  "spaceWidthEnd s =
    (case List.find (\<lambda>p. suffix p s) unicodeSpaces of None \<Rightarrow> 0 | Some p \<Rightarrow> length p)"

lemma spaceWidth_le: "spaceWidth s \<le> length s"
  by (auto simp: spaceWidth_def find_Some_iff prefix_def split: option.splits)

lemma spaceWidthEnd_le: "spaceWidthEnd s \<le> length s"
  by (auto simp: spaceWidthEnd_def find_Some_iff suffix_def split: option.splits)

function TrimLeft :: "string \<Rightarrow> string" where
  "TrimLeft s = (if spaceWidth s = 0 then s else TrimLeft (drop (spaceWidth s) s))"
  by pat_completeness auto
termination
proof (relation "measure length")
  show "wf (measure length)" by simp
next
  fix s :: string
  assume "spaceWidth s \<noteq> 0"
  moreover have "spaceWidth s \<le> length s" by (rule spaceWidth_le)
  ultimately show "(drop (spaceWidth s) s, s) \<in> measure length" by simp
qed

function TrimRight :: "string \<Rightarrow> string" where
  "TrimRight s =
    (if spaceWidthEnd s = 0 then s else TrimRight (take (length s - spaceWidthEnd s) s))"
  by pat_completeness auto
termination
proof (relation "measure length")
  show "wf (measure length)" by simp
next
  fix s :: string
  assume "spaceWidthEnd s \<noteq> 0"
  moreover have "spaceWidthEnd s \<le> length s" by (rule spaceWidthEnd_le)
  ultimately show "(take (length s - spaceWidthEnd s) s, s) \<in> measure length" by simp
qed

declare TrimLeft.simps [simp del] TrimRight.simps [simp del]

definition TrimSpace :: "string \<Rightarrow> string" where
  "TrimSpace s = TrimRight (TrimLeft s)"

text \<open>
  \<^verbatim>\<open>fmt.Sprintf("%d", n)\<close> on an \<^verbatim>\<open>int64\<close>: the decimal digits, with a minus
  sign for a negative number.
\<close>

definition digits :: string where
  "digits = [CHR 0x30, CHR 0x31, CHR 0x32, CHR 0x33, CHR 0x34, CHR 0x35, CHR 0x36, CHR 0x37,
             CHR 0x38, CHR 0x39]"

fun decimal :: "nat \<Rightarrow> string" where
  "decimal n = (if n < 10 then [digits ! n] else decimal (n div 10) @ [digits ! (n mod 10)])"

declare decimal.simps [simp del]

definition FormatInt :: "int \<Rightarrow> string" where
  "FormatInt i = (if i < 0 then CHR ''-'' # decimal (nat (- i)) else decimal (nat i))"

section \<open>The outside world of one check\<close>

text \<open>
  A check talks to the outside through the clock, the \<^verbatim>\<open>aws\<close> command line tool
  (\<^verbatim>\<open>exec.Command("aws", ...)\<close>), the local file system and, in the variant of the
  checker that keeps an SDK client, the client's \<^verbatim>\<open>GetPublicAccessBlock\<close> and
  \<^verbatim>\<open>GetBucketPolicy\<close>. Each of these is a \<open>call\<close>. A command is run either
  with \<^verbatim>\<open>CombinedOutput\<close>, which gives the check its output and its error
  (\<open>ExecOutput\<close>), or with \<^verbatim>\<open>Run\<close> and its error dropped (\<open>ExecRun\<close>).
\<close>

datatype call =
    Now
  | ExecOutput "string list"
  | ExecRun "string list"
  | WriteFile string string
  | Remove string
  | GetPublicAccessBlock string
  | GetBucketPolicy string

text \<open>
  The SDK's \<^verbatim>\<open>PublicAccessBlockConfiguration\<close> holds four \<^verbatim>\<open>*bool\<close> fields; a
  nil pointer is \<open>None\<close>. An SDK call returns an error (\<open>Failed\<close> with the text of
  \<^verbatim>\<open>err.Error()\<close>) or its output. The output of \<^verbatim>\<open>GetPublicAccessBlock\<close> is the
  pointer \<^verbatim>\<open>pab.PublicAccessBlockConfiguration\<close>, which may be nil; the output of
  \<^verbatim>\<open>GetBucketPolicy\<close> is the pointer \<^verbatim>\<open>policy.Policy\<close> to the policy text, a
  \<^verbatim>\<open>*string\<close> that may be nil as well.
\<close>

record PublicAccessBlockConfiguration =
  BlockPublicAcls :: "bool option"
  BlockPublicPolicy :: "bool option"
  IgnorePublicAcls :: "bool option"
  RestrictPublicBuckets :: "bool option"

datatype 'a sdk = Failed string | Output 'a

text \<open>
  The world answers the \<open>n\<close>-th call of a check (\<open>n\<close> counts the calls the check has
  made so far), so that one command may succeed at one point of a check and fail at
  another. \<open>aws\<close> returns whether \<^verbatim>\<open>err != nil\<close> and the combined output;
  \<open>writeFile\<close> returns the error text of \<^verbatim>\<open>os.WriteFile\<close>, \<open>None\<close> for nil.
  The world answers every call: a command or a request that never ends is not
  modelled.
\<close>

record world =
  unixNano :: "nat \<Rightarrow> 64 word"
  aws :: "nat \<Rightarrow> string list \<Rightarrow> bool \<times> string"
  writeFile :: "nat \<Rightarrow> string \<Rightarrow> string \<Rightarrow> string option"
  sdkGetPublicAccessBlock :: "nat \<Rightarrow> string \<Rightarrow> PublicAccessBlockConfiguration option sdk"
  sdkGetBucketPolicy :: "nat \<Rightarrow> string \<Rightarrow> string option sdk"

text \<open>
  A Go function returns a value or panics; a panic that nothing recovers unwinds the
  callers and ends the program. The one panic the checker can raise of itself is the
  run-time error of reading through a nil pointer.
\<close>

datatype 'a result = Return 'a | Panic string

definition nil_dereference :: string where
  "nil_dereference = ''runtime error: invalid memory address or nil pointer dereference''"

text \<open>What a check has done so far: its calls in order, and the lines it wrote to
  standard error.\<close>

record run =
  calls :: "call list"
  stderr :: "string list"

definition start :: run where
  "start = \<lparr>calls = [], stderr = []\<rparr>"

definition did :: "call \<Rightarrow> run \<Rightarrow> run" where
  "did c s = s\<lparr>calls := calls s @ [c]\<rparr>"

definition time_Now_UnixNano :: "world \<Rightarrow> run \<Rightarrow> int \<times> run" where
  "time_Now_UnixNano w s = (sint (unixNano w (length (calls s))), did Now s)"

definition CombinedOutput :: "world \<Rightarrow> string list \<Rightarrow> run \<Rightarrow> (bool \<times> string) \<times> run" where
  "CombinedOutput w args s = (aws w (length (calls s)) args, did (ExecOutput args) s)"

text \<open>\<^verbatim>\<open>cmd.Run()\<close> with the error dropped.\<close>

definition Run_ignored :: "world \<Rightarrow> string list \<Rightarrow> run \<Rightarrow> run" where
  "Run_ignored w args s = did (ExecRun args) s"

definition os_WriteFile :: "world \<Rightarrow> string \<Rightarrow> string \<Rightarrow> run \<Rightarrow> string option \<times> run" where
  "os_WriteFile w name contents s =
    (writeFile w (length (calls s)) name contents, did (WriteFile name contents) s)"

text \<open>\<^verbatim>\<open>defer os.Remove(tmpFile)\<close>: the file is removed when the function returns,
  whatever it returns.\<close>

definition defer_os_Remove :: "string \<Rightarrow> string \<times> run \<Rightarrow> string \<times> run" where
  "defer_os_Remove name r = (fst r, did (Remove name) (snd r))"

definition Fprintf_Stderr :: "string \<Rightarrow> run \<Rightarrow> run" where
  "Fprintf_Stderr line s = s\<lparr>stderr := stderr s @ [line]\<rparr>"

definition client_GetPublicAccessBlock ::
  "world \<Rightarrow> string \<Rightarrow> run \<Rightarrow> PublicAccessBlockConfiguration option sdk \<times> run" where
  "client_GetPublicAccessBlock w bucket s =
    (sdkGetPublicAccessBlock w (length (calls s)) bucket, did (GetPublicAccessBlock bucket) s)"

definition client_GetBucketPolicy :: "world \<Rightarrow> string \<Rightarrow> run \<Rightarrow> string option sdk \<times> run" where
  "client_GetBucketPolicy w bucket s =
    (sdkGetBucketPolicy w (length (calls s)) bucket, did (GetBucketPolicy bucket) s)"

section \<open>The checker\<close>

record Checker =
  verbose :: bool

definition NewChecker :: Checker where
  "NewChecker = \<lparr>verbose = False\<rparr>"

definition SetVerbose :: "Checker \<Rightarrow> bool \<Rightarrow> Checker" where
  "SetVerbose c v = c\<lparr>verbose := v\<rparr>"

text \<open>
  The two tests the checks make on the text of a failed command. Every check makes the
  first, \<^verbatim>\<open>strings.Contains(errStr, "AccessDenied") || strings.Contains(errStr, "403")
  || strings.Contains(errStr, "Forbidden")\<close>; the two GET checks make the second before it,
  \<^verbatim>\<open>strings.Contains(errStr, "NoSuchKey") || strings.Contains(errStr, "404")\<close>.
\<close>

definition denied_text :: "string \<Rightarrow> bool" where
  "denied_text errStr =
    (Contains errStr ''AccessDenied'' \<or> Contains errStr ''403'' \<or> Contains errStr ''Forbidden'')"

definition not_found_text :: "string \<Rightarrow> bool" where
  "not_found_text errStr = (Contains errStr ''NoSuchKey'' \<or> Contains errStr ''404'')"

definition newline :: string where
  "newline = [CHR 0x0A]"

subsection \<open>GET-ACL and PUT-ACL\<close>

definition checkGetACLWithContext :: "world \<Rightarrow> Checker \<Rightarrow> string \<Rightarrow> string \<times> run" where
  "checkGetACLWithContext w c bucketName =
    (case CombinedOutput w [''s3api'', ''get-bucket-acl'', ''--bucket'', bucketName] start of
      ((err, output), s1) \<Rightarrow>
        if err then
          (let s2 = (if verbose c
                     then Fprintf_Stderr (''[GET-ACL] '' @ bucketName @ '': '' @ output @ newline) s1
                     else s1);
               errStr = output
           in if denied_text errStr then (''DENIED'', s2) else (''DENIED'', s2))
        else (''OK'', s1))"

definition checkGetACL :: "world \<Rightarrow> Checker \<Rightarrow> string \<Rightarrow> string \<times> run" where
  "checkGetACL w c bucketName = checkGetACLWithContext w c bucketName"

definition checkPutACLWithContext :: "world \<Rightarrow> Checker \<Rightarrow> string \<Rightarrow> string \<times> run" where
  "checkPutACLWithContext w c bucketName =
    (case CombinedOutput w [''s3api'', ''get-bucket-acl'', ''--bucket'', bucketName] start of
      ((err, getOutput), s1) \<Rightarrow>
        if err then
          (let s2 = (if verbose c
                     then Fprintf_Stderr
                            (''[PUT-ACL] '' @ bucketName @ '' (get): '' @ getOutput @ newline) s1
                     else s1);
               errStr = getOutput
           in if denied_text errStr then (''DENIED'', s2) else (''DENIED'', s2))
        else
          (case time_Now_UnixNano w s1 of
            (nanos, s2) \<Rightarrow>
              (let tmpFile = ''/tmp/acl-'' @ bucketName @ ''-'' @ FormatInt nanos @ ''.json'' in
               case os_WriteFile w tmpFile getOutput s2 of
                 (Some e, s3) \<Rightarrow>
                   (''DENIED'',
                    if verbose c
                    then Fprintf_Stderr
                           (''[PUT-ACL] '' @ bucketName @ '' (write temp): '' @ e @ newline) s3
                    else s3)
               | (None, s3) \<Rightarrow>
                   defer_os_Remove tmpFile
                     (case CombinedOutput w
                             [''s3api'', ''put-bucket-acl'', ''--bucket'', bucketName,
                              ''--access-control-policy'', ''file://'' @ tmpFile] s3 of
                       ((err, putOutput), s4) \<Rightarrow>
                         if err then
                           (let s5 = (if verbose c
                                      then Fprintf_Stderr
                                             (''[PUT-ACL] '' @ bucketName @ '' (put): ''
                                                @ putOutput @ newline) s4
                                      else s4);
                                errStr = putOutput
                            in if denied_text errStr then (''DENIED'', s5) else (''DENIED'', s5))
                         else (''OK'', s4)))))"

definition checkPutACL :: "world \<Rightarrow> Checker \<Rightarrow> string \<Rightarrow> string \<times> run" where
  "checkPutACL w c bucketName = checkPutACLWithContext w c bucketName"

subsection \<open>The public access block\<close>

text \<open>
  \<open>checkAnonGet\<close>, \<open>checkAnonWrite\<close> and \<open>checkAnonDel\<close> begin with the same
  block, which differs only in the tag of its log line: fetch the public access block
  and return \<^verbatim>\<open>DENIED\<close> at once when it blocks public access. The block is written
  once here; it answers whether the check returns at once. \<open>publicAccessBlocked\<close> is
  the block of the checker that runs the command line tool and searches its output for
  a flag printed as true; \<open>publicAccessBlocked_sdk\<close> is the block of the checker that
  asks its SDK client and reads the four flags.
\<close>

definition flag_true :: "string \<Rightarrow> bool" where
  \<open>flag_true pabStr =
    (Contains pabStr ''"BlockPublicAcls": true'' \<or>
     Contains pabStr ''"BlockPublicPolicy": true'' \<or>
     Contains pabStr ''"IgnorePublicAcls": true'' \<or>
     Contains pabStr ''"RestrictPublicBuckets": true'')\<close>

definition publicAccessBlocked ::
  "world \<Rightarrow> Checker \<Rightarrow> string \<Rightarrow> string \<Rightarrow> run \<Rightarrow> bool \<times> run" where
  "publicAccessBlocked w c tag bucketName s =
    (case CombinedOutput w [''s3api'', ''get-public-access-block'', ''--bucket'', bucketName] s of
      ((pabErr, pabOutput), s1) \<Rightarrow>
        if pabErr then
          (let errStr = pabOutput in
           (False,
            if verbose c \<and> \<not> Contains errStr ''NoSuchPublicAccessBlockConfiguration''
            then Fprintf_Stderr
                   (tag @ '' '' @ bucketName @ '' (public-access-block): '' @ errStr @ newline) s1
            else s1))
        else
          (let pabStr = pabOutput in
           if flag_true pabStr then (True, s1) else (False, s1)))"

definition publicAccessBlocked_sdk ::
  "world \<Rightarrow> Checker \<Rightarrow> string \<Rightarrow> string \<Rightarrow> run \<Rightarrow> bool \<times> run" where
  "publicAccessBlocked_sdk w c tag bucketName s =
    (case client_GetPublicAccessBlock w bucketName s of
      (Failed errStr, s1) \<Rightarrow>
        (False,
         if verbose c \<and> \<not> Contains errStr ''NoSuchPublicAccessBlockConfiguration''
         then Fprintf_Stderr
                (tag @ '' '' @ bucketName @ '' (public-access-block): '' @ errStr @ newline) s1
         else s1)
    | (Output None, s1) \<Rightarrow> (False, s1)
    | (Output (Some cfg), s1) \<Rightarrow>
        if BlockPublicAcls cfg = Some True then (True, s1)
        else if BlockPublicPolicy cfg = Some True then (True, s1)
        else if IgnorePublicAcls cfg = Some True then (True, s1)
        else if RestrictPublicBuckets cfg = Some True then (True, s1)
        else (False, s1))"

subsection \<open>ANON-GET and AUTH-GET\<close>

definition permissive_policy :: "string \<Rightarrow> bool" where
  \<open>permissive_policy policyStr =
    ((Contains policyStr ''"Principal":"*"'' \<or> Contains policyStr ''"Principal":{"AWS":"*"}'') \<and>
     (Contains policyStr ''"s3:GetObject"'' \<or> Contains policyStr ''"s3:Get*"''))\<close>

definition checkBucketPolicyForAnonGet ::
  "world \<Rightarrow> Checker \<Rightarrow> string \<Rightarrow> run \<Rightarrow> string \<times> run" where
  "checkBucketPolicyForAnonGet w c bucketName s =
    (case CombinedOutput w [''s3api'', ''get-bucket-policy'', ''--bucket'', bucketName] s of
      ((err, output), s1) \<Rightarrow>
        if err then
          (''DENIED'',
           if verbose c
           then Fprintf_Stderr (''[ANON-GET] '' @ bucketName @ '' (policy): '' @ output @ newline) s1
           else s1)
        else
          (let policyStr = output in
           if permissive_policy policyStr then (''OK'', s1) else (''DENIED'', s1)))"

text \<open>
  The fallback of the checker with the SDK client reads the policy text through the
  pointer, \<^verbatim>\<open>policyStr := *policy.Policy\<close>, with no nil test before it: on a nil
  pointer the function panics, and with it \<open>checkAnonGet\<close> of that checker, which
  calls it. No other function of the eight checks reads through a pointer it has not
  tested.
\<close>

definition checkBucketPolicyForAnonGet_sdk ::
  "world \<Rightarrow> Checker \<Rightarrow> string \<Rightarrow> run \<Rightarrow> string result \<times> run" where
  "checkBucketPolicyForAnonGet_sdk w c bucketName s =
    (case client_GetBucketPolicy w bucketName s of
      (Failed e, s1) \<Rightarrow>
        (Return ''DENIED'',
         if verbose c
         then Fprintf_Stderr (''[ANON-GET] '' @ bucketName @ '' (policy): '' @ e @ newline) s1
         else s1)
    | (Output policy, s1) \<Rightarrow>
        (case policy of
          None \<Rightarrow> (Panic nil_dereference, s1)
        | Some policyStr \<Rightarrow>
            if permissive_policy policyStr then (Return ''OK'', s1) else (Return ''DENIED'', s1)))"

text \<open>
  What follows the public access block in \<open>checkAnonGet\<close>: \<open>anonHead\<close> in the
  checker that runs the command line tool, \<open>anonHead_sdk\<close> in the checker with the
  SDK client. The two differ in the policy fallback they call.
\<close>

definition anonHead ::
  "world \<Rightarrow> Checker \<Rightarrow> string \<Rightarrow> string \<Rightarrow> run \<Rightarrow> string \<times> run" where
  "anonHead w c bucketName testKey s1 =
    (case CombinedOutput w
            [''s3api'', ''head-object'', ''--bucket'', bucketName, ''--key'', testKey,
             ''--no-sign-request''] s1 of
      ((err, output), s2) \<Rightarrow>
        if err then
          (let errStr = output;
               s3 = (if verbose c
                     then Fprintf_Stderr (''[ANON-GET] '' @ bucketName @ '': '' @ errStr @ newline) s2
                     else s2)
           in if not_found_text errStr then (''OK'', s3)
              else if denied_text errStr then (''DENIED'', s3)
              else checkBucketPolicyForAnonGet w c bucketName s3)
        else (''OK'', s2))"

definition anonHead_sdk ::
  "world \<Rightarrow> Checker \<Rightarrow> string \<Rightarrow> string \<Rightarrow> run \<Rightarrow> string result \<times> run" where
  "anonHead_sdk w c bucketName testKey s1 =
    (case CombinedOutput w
            [''s3api'', ''head-object'', ''--bucket'', bucketName, ''--key'', testKey,
             ''--no-sign-request''] s1 of
      ((err, output), s2) \<Rightarrow>
        if err then
          (let errStr = output;
               s3 = (if verbose c
                     then Fprintf_Stderr (''[ANON-GET] '' @ bucketName @ '': '' @ errStr @ newline) s2
                     else s2)
           in if not_found_text errStr then (Return ''OK'', s3)
              else if denied_text errStr then (Return ''DENIED'', s3)
              else checkBucketPolicyForAnonGet_sdk w c bucketName s3)
        else (Return ''OK'', s2))"

definition checkAnonGet :: "world \<Rightarrow> Checker \<Rightarrow> string \<Rightarrow> string \<times> run" where
  "checkAnonGet w c bucketName =
    (case time_Now_UnixNano w start of
      (nanos, s0) \<Rightarrow>
        (let testKey = ''test-'' @ FormatInt nanos in
         case publicAccessBlocked w c ''[ANON-GET]'' bucketName s0 of
           (True, s1) \<Rightarrow> (''DENIED'', s1)
         | (False, s1) \<Rightarrow> anonHead w c bucketName testKey s1))"

definition checkAnonGet_sdk :: "world \<Rightarrow> Checker \<Rightarrow> string \<Rightarrow> string result \<times> run" where
  "checkAnonGet_sdk w c bucketName =
    (case time_Now_UnixNano w start of
      (nanos, s0) \<Rightarrow>
        (let testKey = ''test-'' @ FormatInt nanos in
         case publicAccessBlocked_sdk w c ''[ANON-GET]'' bucketName s0 of
           (True, s1) \<Rightarrow> (Return ''DENIED'', s1)
         | (False, s1) \<Rightarrow> anonHead_sdk w c bucketName testKey s1))"

definition checkAuthGet :: "world \<Rightarrow> Checker \<Rightarrow> string \<Rightarrow> string \<times> run" where
  "checkAuthGet w c bucketName =
    (case time_Now_UnixNano w start of
      (nanos, s0) \<Rightarrow>
        (let testKey = ''test-'' @ FormatInt nanos in
         case CombinedOutput w
                [''s3api'', ''head-object'', ''--bucket'', bucketName, ''--key'', testKey] s0 of
           ((err, output), s1) \<Rightarrow>
             if err then
               (let errStr = output;
                    s2 = (if verbose c
                          then Fprintf_Stderr
                                 (''[AUTH-GET] '' @ bucketName @ '': '' @ errStr @ newline) s1
                          else s1)
                in if not_found_text errStr then (''OK'', s2)
                   else if denied_text errStr then (''DENIED'', s2)
                   else (''DENIED'', s2))
             else (''OK'', s1)))"

subsection \<open>ANON-WRITE and AUTH-WRITE\<close>

text \<open>What follows the public access block in \<open>checkAnonWrite\<close>, the same in
  both checkers.\<close>

definition anonPut :: "world \<Rightarrow> Checker \<Rightarrow> string \<Rightarrow> run \<Rightarrow> string \<times> run" where
  "anonPut w c bucketName s1 =
    (case time_Now_UnixNano w s1 of
      (n1, s2) \<Rightarrow>
        (let testKey = ''test-anon-write-'' @ FormatInt n1 in
         case time_Now_UnixNano w s2 of
           (n2, s3) \<Rightarrow>
             (let tmpFile = ''/tmp/test-'' @ bucketName @ ''-'' @ FormatInt n2 in
              case os_WriteFile w tmpFile ''test'' s3 of
                (Some e, s4) \<Rightarrow>
                  (''DENIED'',
                   if verbose c
                   then Fprintf_Stderr
                          (''[ANON-WRITE] '' @ bucketName @ '' (write temp): '' @ e @ newline) s4
                   else s4)
              | (None, s4) \<Rightarrow>
                  defer_os_Remove tmpFile
                    (case CombinedOutput w
                            [''s3api'', ''put-object'', ''--bucket'', bucketName, ''--key'', testKey,
                             ''--body'', tmpFile, ''--no-sign-request''] s4 of
                      ((err, output), s5) \<Rightarrow>
                        if err then
                          (let s6 = (if verbose c
                                     then Fprintf_Stderr
                                            (''[ANON-WRITE] '' @ bucketName @ '': '' @ output
                                               @ newline) s5
                                     else s5);
                               errStr = output
                           in if denied_text errStr then (''DENIED'', s6) else (''DENIED'', s6))
                        else
                          (''OK'',
                           Run_ignored w
                             [''s3api'', ''delete-object'', ''--bucket'', bucketName, ''--key'',
                              testKey, ''--no-sign-request''] s5)))))"

definition checkAnonWrite :: "world \<Rightarrow> Checker \<Rightarrow> string \<Rightarrow> string \<times> run" where
  "checkAnonWrite w c bucketName =
    (case publicAccessBlocked w c ''[ANON-WRITE]'' bucketName start of
      (True, s1) \<Rightarrow> (''DENIED'', s1)
    | (False, s1) \<Rightarrow> anonPut w c bucketName s1)"

definition checkAnonWrite_sdk :: "world \<Rightarrow> Checker \<Rightarrow> string \<Rightarrow> string \<times> run" where
  "checkAnonWrite_sdk w c bucketName =
    (case publicAccessBlocked_sdk w c ''[ANON-WRITE]'' bucketName start of
      (True, s1) \<Rightarrow> (''DENIED'', s1)
    | (False, s1) \<Rightarrow> anonPut w c bucketName s1)"

definition checkAuthWrite :: "world \<Rightarrow> Checker \<Rightarrow> string \<Rightarrow> string \<times> run" where
  "checkAuthWrite w c bucketName =
    (case time_Now_UnixNano w start of
      (n1, s1) \<Rightarrow>
        (let testKey = ''test-auth-write-'' @ FormatInt n1 in
         case time_Now_UnixNano w s1 of
           (n2, s2) \<Rightarrow>
             (let tmpFile = ''/tmp/test-'' @ bucketName @ ''-'' @ FormatInt n2 in
              case os_WriteFile w tmpFile ''test'' s2 of
                (Some e, s3) \<Rightarrow>
                  (''DENIED'',
                   if verbose c
                   then Fprintf_Stderr
                          (''[AUTH-WRITE] '' @ bucketName @ '' (write temp): '' @ e @ newline) s3
                   else s3)
              | (None, s3) \<Rightarrow>
                  defer_os_Remove tmpFile
                    (case CombinedOutput w
                            [''s3api'', ''put-object'', ''--bucket'', bucketName, ''--key'', testKey,
                             ''--body'', tmpFile] s3 of
                      ((err, output), s4) \<Rightarrow>
                        if err then
                          (let s5 = (if verbose c
                                     then Fprintf_Stderr
                                            (''[AUTH-WRITE] '' @ bucketName @ '' (put): '' @ output
                                               @ newline) s4
                                     else s4);
                               errStr = output
                           in if denied_text errStr then (''DENIED'', s5) else (''DENIED'', s5))
                        else
                          (''OK'',
                           Run_ignored w
                             [''s3api'', ''delete-object'', ''--bucket'', bucketName, ''--key'',
                              testKey] s4)))))"

subsection \<open>ANON-DEL and AUTH-DEL\<close>

text \<open>What follows the public access block in \<open>checkAnonDel\<close>, the same in both
  checkers.\<close>

definition anonDelete :: "world \<Rightarrow> Checker \<Rightarrow> string \<Rightarrow> run \<Rightarrow> string \<times> run" where
  "anonDelete w c bucketName s1 =
    (case time_Now_UnixNano w s1 of
      (n1, s2) \<Rightarrow>
        (let testKey = ''test-anon-del-'' @ FormatInt n1 in
         case time_Now_UnixNano w s2 of
           (n2, s3) \<Rightarrow>
             (let tmpFile = ''/tmp/test-'' @ bucketName @ ''-'' @ FormatInt n2 in
              case os_WriteFile w tmpFile ''test'' s3 of
                (Some e, s4) \<Rightarrow>
                  (''DENIED'',
                   if verbose c
                   then Fprintf_Stderr
                          (''[ANON-DEL] '' @ bucketName @ '' (write temp): '' @ e @ newline) s4
                   else s4)
              | (None, s4) \<Rightarrow>
                  defer_os_Remove tmpFile
                    (case CombinedOutput w
                            [''s3api'', ''put-object'', ''--bucket'', bucketName, ''--key'', testKey,
                             ''--body'', tmpFile] s4 of
                      ((err, putOutput), s5) \<Rightarrow>
                        if err then
                          (''DENIED'',
                           if verbose c
                           then Fprintf_Stderr
                                  (''[ANON-DEL] '' @ bucketName @ '' (create test object): ''
                                     @ putOutput @ newline) s5
                           else s5)
                        else
                          (case CombinedOutput w
                                  [''s3api'', ''delete-object'', ''--bucket'', bucketName, ''--key'',
                                   testKey, ''--no-sign-request''] s5 of
                            ((err, delOutput), s6) \<Rightarrow>
                              if err then
                                (let s7 = (if verbose c
                                           then Fprintf_Stderr
                                                  (''[ANON-DEL] '' @ bucketName @ '': '' @ delOutput
                                                     @ newline) s6
                                           else s6);
                                     s8 = Run_ignored w
                                            [''s3api'', ''delete-object'', ''--bucket'', bucketName,
                                             ''--key'', testKey] s7;
                                     errStr = delOutput
                                 in if denied_text errStr then (''DENIED'', s8)
                                    else (''DENIED'', s8))
                              else (''OK'', s6))))))"

definition checkAnonDel :: "world \<Rightarrow> Checker \<Rightarrow> string \<Rightarrow> string \<times> run" where
  "checkAnonDel w c bucketName =
    (case publicAccessBlocked w c ''[ANON-DEL]'' bucketName start of
      (True, s1) \<Rightarrow> (''DENIED'', s1)
    | (False, s1) \<Rightarrow> anonDelete w c bucketName s1)"

definition checkAnonDel_sdk :: "world \<Rightarrow> Checker \<Rightarrow> string \<Rightarrow> string \<times> run" where
  "checkAnonDel_sdk w c bucketName =
    (case publicAccessBlocked_sdk w c ''[ANON-DEL]'' bucketName start of
      (True, s1) \<Rightarrow> (''DENIED'', s1)
    | (False, s1) \<Rightarrow> anonDelete w c bucketName s1)"

definition checkAuthDel :: "world \<Rightarrow> Checker \<Rightarrow> string \<Rightarrow> string \<times> run" where
  "checkAuthDel w c bucketName =
    (case time_Now_UnixNano w start of
      (n1, s1) \<Rightarrow>
        (let testKey = ''test-auth-del-'' @ FormatInt n1 in
         case time_Now_UnixNano w s1 of
           (n2, s2) \<Rightarrow>
             (let tmpFile = ''/tmp/test-'' @ bucketName @ ''-'' @ FormatInt n2 in
              case os_WriteFile w tmpFile ''test'' s2 of
                (Some e, s3) \<Rightarrow>
                  (''DENIED'',
                   if verbose c
                   then Fprintf_Stderr
                          (''[AUTH-DEL] '' @ bucketName @ '' (write temp): '' @ e @ newline) s3
                   else s3)
              | (None, s3) \<Rightarrow>
                  defer_os_Remove tmpFile
                    (case CombinedOutput w
                            [''s3api'', ''put-object'', ''--bucket'', bucketName, ''--key'', testKey,
                             ''--body'', tmpFile] s3 of
                      ((err, putOutput), s4) \<Rightarrow>
                        if err then
                          (let s5 = (if verbose c
                                     then Fprintf_Stderr
                                            (''[AUTH-DEL] '' @ bucketName @ '' (put): '' @ putOutput
                                               @ newline) s4
                                     else s4);
                               errStr = putOutput
                           in if denied_text errStr then (''DENIED'', s5) else (''DENIED'', s5))
                        else
                          (case CombinedOutput w
                                  [''s3api'', ''delete-object'', ''--bucket'', bucketName, ''--key'',
                                   testKey] s4 of
                            ((err, delOutput), s5) \<Rightarrow>
                              if err then
                                (let s6 = (if verbose c
                                           then Fprintf_Stderr
                                                  (''[AUTH-DEL] '' @ bucketName @ '' (delete): ''
                                                     @ delOutput @ newline) s5
                                           else s5);
                                     errStr = delOutput
                                 in if denied_text errStr then (''DENIED'', s6)
                                    else (''DENIED'', s6))
                              else (''OK'', s5))))))"

section \<open>The driver\<close>

record BucketResult =
  BucketName :: string
  GetACL :: string
  PutACL :: string
  AnonGet :: string
  AuthGet :: string
  AnonWrite :: string
  AuthWrite :: string
  AnonDel :: string
  AuthDel :: string

text \<open>\<^verbatim>\<open>BucketResult{BucketName: bucketName}\<close>: the other fields hold Go's zero
  value, the empty string.\<close>

definition newResult :: "string \<Rightarrow> BucketResult" where
  "newResult bucketName =
    \<lparr>BucketName = bucketName, GetACL = [], PutACL = [], AnonGet = [], AuthGet = [],
     AnonWrite = [], AuthWrite = [], AnonDel = [], AuthDel = []\<rparr>"

text \<open>
  What the driver does that its caller can see, in order: it begins the checks of a
  bucket (\<open>Probe\<close>), hands a result to the callback (\<open>Sink\<close>) and sleeps
  (\<open>Sleep\<close>, in nanoseconds as \<^verbatim>\<open>time.Duration\<close> counts). The callback is the
  caller's: it is taken to be a function that returns.
\<close>

datatype event = Probe string | Sink BucketResult | Sleep nat

definition Millisecond :: nat where
  "Millisecond = 1000000"

text \<open>Both files of the checker declare \<^verbatim>\<open>bucketCheckDelay = 100 * time.Millisecond\<close>,
  the \<^verbatim>\<open>Delay between bucket checks to avoid rate limiting\<close>; the driver with
  goroutines sleeps for the same duration, written out.\<close>

definition bucketCheckDelay :: nat where
  "bucketCheckDelay = 100 * Millisecond"

text \<open>
  The surroundings of a run of the driver. The check that fills field \<open>f\<close> for the
  identifier at position \<open>i\<close> of the input runs against the world \<open>probe e i f\<close>.
  In the driver that runs the checks of a bucket as goroutines, \<open>finish e i f\<close> is
  the moment the goroutine of field \<open>f\<close> sends its result: the channel hands the
  results over in the order they were sent.
\<close>

record env =
  probe :: "nat \<Rightarrow> string \<Rightarrow> world"
  finish :: "nat \<Rightarrow> string \<Rightarrow> nat"

subsection \<open>The driver with eight goroutines a bucket\<close>

text \<open>The eight goroutines, in the order the driver starts them; each sends the name
  of its field and the verdict of its check.\<close>

definition goroutines :: "(string \<Rightarrow> world) \<Rightarrow> Checker \<Rightarrow> string \<Rightarrow> (string \<times> string) list" where
  "goroutines ws c bucketName =
    [(''GetACL'', fst (checkGetACLWithContext (ws ''GetACL'') c bucketName)),
     (''PutACL'', fst (checkPutACLWithContext (ws ''PutACL'') c bucketName)),
     (''AnonGet'', fst (checkAnonGet (ws ''AnonGet'') c bucketName)),
     (''AuthGet'', fst (checkAuthGet (ws ''AuthGet'') c bucketName)),
     (''AnonWrite'', fst (checkAnonWrite (ws ''AnonWrite'') c bucketName)),
     (''AuthWrite'', fst (checkAuthWrite (ws ''AuthWrite'') c bucketName)),
     (''AnonDel'', fst (checkAnonDel (ws ''AnonDel'') c bucketName)),
     (''AuthDel'', fst (checkAuthDel (ws ''AuthDel'') c bucketName))]"

text \<open>The contents of \<^verbatim>\<open>resultsChan\<close> when it is closed: the eight results, the
  earliest sent first.\<close>

definition resultsChan :: "(string \<Rightarrow> nat) \<Rightarrow> (string \<times> string) list \<Rightarrow> (string \<times> string) list" where
  "resultsChan sent msgs = sort_key (\<lambda>res. sent (fst res)) msgs"

text \<open>\<^verbatim>\<open>for res := range resultsChan { switch res.field { ... } }\<close>\<close>

fun collect :: "(string \<times> string) list \<Rightarrow> BucketResult \<Rightarrow> BucketResult" where
  "collect [] result = result"
| "collect (res # rest) result =
    collect rest
      (if fst res = ''GetACL'' then result\<lparr>GetACL := snd res\<rparr>
       else if fst res = ''PutACL'' then result\<lparr>PutACL := snd res\<rparr>
       else if fst res = ''AnonGet'' then result\<lparr>AnonGet := snd res\<rparr>
       else if fst res = ''AuthGet'' then result\<lparr>AuthGet := snd res\<rparr>
       else if fst res = ''AnonWrite'' then result\<lparr>AnonWrite := snd res\<rparr>
       else if fst res = ''AuthWrite'' then result\<lparr>AuthWrite := snd res\<rparr>
       else if fst res = ''AnonDel'' then result\<lparr>AnonDel := snd res\<rparr>
       else if fst res = ''AuthDel'' then result\<lparr>AuthDel := snd res\<rparr>
       else result)"

definition checkBucket :: "env \<Rightarrow> Checker \<Rightarrow> nat \<Rightarrow> string \<Rightarrow> BucketResult" where
  "checkBucket e c i bucketName =
    collect (resultsChan (finish e i) (goroutines (probe e i) c bucketName))
      (newResult bucketName)"

text \<open>The loop \<^verbatim>\<open>for i, bucketName := range bucketNames\<close>; \<open>n\<close> is
  \<^verbatim>\<open>len(bucketNames)\<close> and \<open>i\<close> the index of the head of the list.\<close>

fun stream :: "env \<Rightarrow> Checker \<Rightarrow> nat \<Rightarrow> nat \<Rightarrow> string list \<Rightarrow> event list" where
  "stream e c n i [] = []"
| "stream e c n i (b # rest) =
    (let bucketName = TrimSpace b in
     if bucketName = [] then stream e c n (Suc i) rest
     else
       [Probe bucketName, Sink (checkBucket e c i bucketName)]
       @ (if int i < int n - 1 then [Sleep (100 * Millisecond)] else [])
       @ stream e c n (Suc i) rest)"

text \<open>The driver returns its error (\<open>None\<close> for nil) and what it did.\<close>

definition CheckBucketsStream :: "env \<Rightarrow> Checker \<Rightarrow> string list \<Rightarrow> string option \<times> event list" where
  "CheckBucketsStream e c bucketNames = (None, stream e c (length bucketNames) 0 bucketNames)"

subsection \<open>The driver that runs the checks one after the other\<close>

text \<open>
  The checks of a bucket, in the order of the source. A panic of \<open>checkAnonGet\<close>
  ends the function before the checks after it are run.
\<close>

definition checkBucket_sdk :: "env \<Rightarrow> Checker \<Rightarrow> nat \<Rightarrow> string \<Rightarrow> BucketResult result" where
  "checkBucket_sdk e c i bucketName =
    (let result = newResult bucketName;
         result = result\<lparr>GetACL := fst (checkGetACLWithContext (probe e i ''GetACL'') c bucketName)\<rparr>;
         result = result\<lparr>PutACL := fst (checkPutACLWithContext (probe e i ''PutACL'') c bucketName)\<rparr>
     in case fst (checkAnonGet_sdk (probe e i ''AnonGet'') c bucketName) of
          Panic msg \<Rightarrow> Panic msg
        | Return v \<Rightarrow>
            (let result = result\<lparr>AnonGet := v\<rparr>;
                 result = result\<lparr>AuthGet := fst (checkAuthGet (probe e i ''AuthGet'') c bucketName)\<rparr>;
                 result = result\<lparr>AnonWrite := fst (checkAnonWrite_sdk (probe e i ''AnonWrite'') c bucketName)\<rparr>;
                 result = result\<lparr>AuthWrite := fst (checkAuthWrite (probe e i ''AuthWrite'') c bucketName)\<rparr>;
                 result = result\<lparr>AnonDel := fst (checkAnonDel_sdk (probe e i ''AnonDel'') c bucketName)\<rparr>;
                 result = result\<lparr>AuthDel := fst (checkAuthDel (probe e i ''AuthDel'') c bucketName)\<rparr>
             in Return result))"

text \<open>
  The loop \<^verbatim>\<open>for _, bucketName := range bucketNames\<close>; the position \<open>i\<close> only
  picks the worlds the checks run against. The driver recovers from no panic: when
  the checks of a bucket panic, the callback is not called for it and the loop goes no
  further. Otherwise the driver returns nil, \<open>Return None\<close>.
\<close>

fun stream_sdk :: "env \<Rightarrow> Checker \<Rightarrow> nat \<Rightarrow> string list \<Rightarrow> string option result \<times> event list" where
  "stream_sdk e c i [] = (Return None, [])"
| "stream_sdk e c i (b # rest) =
    (let bucketName = TrimSpace b in
     if bucketName = [] then stream_sdk e c (Suc i) rest
     else
       (case checkBucket_sdk e c i bucketName of
         Panic msg \<Rightarrow> (Panic msg, [Probe bucketName])
       | Return result \<Rightarrow>
           (let r = stream_sdk e c (Suc i) rest
            in (fst r, [Probe bucketName, Sink result] @ snd r))))"

definition CheckBucketsStream_sdk ::
  "env \<Rightarrow> Checker \<Rightarrow> string list \<Rightarrow> string option result \<times> event list" where
  "CheckBucketsStream_sdk e c bucketNames = stream_sdk e c 0 bucketNames"

text \<open>The results the callback received, in order.\<close>

fun sunk :: "event list \<Rightarrow> BucketResult list" where
  "sunk [] = []"
| "sunk (Sink r # es) = r # sunk es"
| "sunk (e # es) = sunk es"

section \<open>The vocabulary of the properties\<close>

text \<open>A verdict is one of the two strings a check returns; a result is complete when
  its eight fields hold verdicts, and all set when none of them is the empty string.\<close>

definition verdict :: "string \<Rightarrow> bool" where
  "verdict v = (v = ''OK'' \<or> v = ''DENIED'')"

definition all_set :: "BucketResult \<Rightarrow> bool" where
  "all_set r =
    (GetACL r \<noteq> [] \<and> PutACL r \<noteq> [] \<and> AnonGet r \<noteq> [] \<and> AuthGet r \<noteq> [] \<and>
     AnonWrite r \<noteq> [] \<and> AuthWrite r \<noteq> [] \<and> AnonDel r \<noteq> [] \<and> AuthDel r \<noteq> [])"

definition complete :: "BucketResult \<Rightarrow> bool" where
  "complete r =
    (verdict (GetACL r) \<and> verdict (PutACL r) \<and> verdict (AnonGet r) \<and> verdict (AuthGet r) \<and>
     verdict (AnonWrite r) \<and> verdict (AuthWrite r) \<and> verdict (AnonDel r) \<and> verdict (AuthDel r))"

text \<open>What the properties say of a check is about its verdict and its calls.\<close>

definition outcome :: "'v \<times> run \<Rightarrow> 'v \<times> call list" where
  "outcome r = (fst r, calls (snd r))"

text \<open>A check, as a function of the checker it is given, has the same outcome with
  the verbose flag on and off, and is silent with the flag off.\<close>

definition same_outcome :: "(Checker \<Rightarrow> 'v \<times> run) \<Rightarrow> Checker \<Rightarrow> bool" where
  "same_outcome check c =
    (outcome (check (SetVerbose c True)) = outcome (check (SetVerbose c False)) \<and>
     stderr (snd (check (SetVerbose c False))) = [])"

text \<open>The command line \<^verbatim>\<open>aws s3api <operation> --bucket <bucket> ...\<close>, and the
  names a check makes from the clock: the test key from the reading at call \<open>k\<close>, the
  temporary file likewise, and the file \<open>checkPutACLWithContext\<close> saves the ACL
  to.\<close>

definition s3api :: "string \<Rightarrow> string \<Rightarrow> string list \<Rightarrow> string list" where
  "s3api operation bucket rest = [''s3api'', operation, ''--bucket'', bucket] @ rest"

definition testKey :: "string \<Rightarrow> world \<Rightarrow> nat \<Rightarrow> string" where
  "testKey pre w k = pre @ FormatInt (sint (unixNano w k))"

definition tmpFile :: "string \<Rightarrow> world \<Rightarrow> nat \<Rightarrow> string" where
  "tmpFile bucket w k = ''/tmp/test-'' @ bucket @ ''-'' @ FormatInt (sint (unixNano w k))"

definition aclFile :: "string \<Rightarrow> world \<Rightarrow> nat \<Rightarrow> string" where
  "aclFile bucket w k = ''/tmp/acl-'' @ bucket @ ''-'' @ FormatInt (sint (unixNano w k)) @ ''.json''"

text \<open>
  The public access block blocks a check when the fetch, call \<open>k\<close> of the check,
  succeeds and a flag is true: in the output of the command line tool, or among the
  four flags the SDK client returns.
\<close>

definition pab_blocks :: "world \<Rightarrow> nat \<Rightarrow> string \<Rightarrow> bool" where
  "pab_blocks w k bucket =
    (let r = aws w k (s3api ''get-public-access-block'' bucket []) in \<not> fst r \<and> flag_true (snd r))"

definition any_flag :: "PublicAccessBlockConfiguration \<Rightarrow> bool" where
  "any_flag cfg =
    (BlockPublicAcls cfg = Some True \<or> BlockPublicPolicy cfg = Some True \<or>
     IgnorePublicAcls cfg = Some True \<or> RestrictPublicBuckets cfg = Some True)"

definition pab_blocks_sdk :: "world \<Rightarrow> nat \<Rightarrow> string \<Rightarrow> bool" where
  "pab_blocks_sdk w k bucket =
    (case sdkGetPublicAccessBlock w k bucket of
      Output (Some cfg) \<Rightarrow> any_flag cfg
    | _ \<Rightarrow> False)"

text \<open>What the policy fallback of the checker with the SDK client makes of the answer
  of the client, as its source reads: the closed forms of that checker are stated
  with it.\<close>

fun policy_answer :: "string option sdk \<Rightarrow> string result" where
  "policy_answer (Failed e) = Return ''DENIED''"
| "policy_answer (Output None) = Panic nil_dereference"
| "policy_answer (Output (Some policyStr)) =
    (if permissive_policy policyStr then Return ''OK'' else Return ''DENIED'')"

text \<open>
  The policy heuristic in the words of the specification: the policy text contains a
  wildcard principal grant together with a get-object action pattern. The patterns are
  those of compact JSON.
\<close>

definition wildcard_principal :: "string \<Rightarrow> bool" where
  \<open>wildcard_principal policyText =
    (sublist ''"Principal":"*"'' policyText \<or> sublist ''"Principal":{"AWS":"*"}'' policyText)\<close>

definition get_object_action :: "string \<Rightarrow> bool" where
  \<open>get_object_action policyText =
    (sublist ''"s3:GetObject"'' policyText \<or> sublist ''"s3:Get*"'' policyText)\<close>

definition grants_public_read :: "string \<Rightarrow> bool" where
  "grants_public_read policyText = (wildcard_principal policyText \<and> get_object_action policyText)"

text \<open>
  The simpler function of the checks without a not-found case, modelled on the words
  of the claim and not on the code. What such a check is to do is a list of steps: it
  reads the clock, writes a temporary file, runs a command whose failure counts, or
  runs a command as best effort, whatever comes of it. The steps of the four checks
  are written out from the world and the bucket; the first step is call 0.
\<close>

datatype step = Clock | TempFile string string | Command "string list" | BestEffort "string list"

definition GetAcl_steps :: "world \<Rightarrow> string \<Rightarrow> step list" where
  "GetAcl_steps w bucket = [Command (s3api ''get-bucket-acl'' bucket [])]"

definition PutAcl_steps :: "world \<Rightarrow> string \<Rightarrow> step list" where
  "PutAcl_steps w bucket =
    [Command (s3api ''get-bucket-acl'' bucket []),
     Clock,
     TempFile (aclFile bucket w 1) (snd (aws w 0 (s3api ''get-bucket-acl'' bucket []))),
     Command (s3api ''put-bucket-acl'' bucket
                [''--access-control-policy'', ''file://'' @ aclFile bucket w 1])]"

definition AuthWrite_steps :: "world \<Rightarrow> string \<Rightarrow> step list" where
  "AuthWrite_steps w bucket =
    [Clock, Clock,
     TempFile (tmpFile bucket w 1) ''test'',
     Command (s3api ''put-object'' bucket
                [''--key'', testKey ''test-auth-write-'' w 0, ''--body'', tmpFile bucket w 1]),
     BestEffort (s3api ''delete-object'' bucket [''--key'', testKey ''test-auth-write-'' w 0])]"

definition AuthDel_steps :: "world \<Rightarrow> string \<Rightarrow> step list" where
  "AuthDel_steps w bucket =
    [Clock, Clock,
     TempFile (tmpFile bucket w 1) ''test'',
     Command (s3api ''put-object'' bucket
                [''--key'', testKey ''test-auth-del-'' w 0, ''--body'', tmpFile bucket w 1]),
     Command (s3api ''delete-object'' bucket [''--key'', testKey ''test-auth-del-'' w 0])]"

text \<open>
  The claim as it stands: \<^verbatim>\<open>OK\<close> if and only if every underlying command of the
  check succeeded, \<^verbatim>\<open>DENIED\<close> otherwise. The commands are those of the steps, best
  effort or not; step \<open>j\<close> of the list is call \<open>k + j\<close>.
\<close>

fun every_command_succeeded :: "world \<Rightarrow> nat \<Rightarrow> step list \<Rightarrow> bool" where
  "every_command_succeeded w k [] = True"
| "every_command_succeeded w k (Command args # steps) =
    (\<not> fst (aws w k args) \<and> every_command_succeeded w (Suc k) steps)"
| "every_command_succeeded w k (BestEffort args # steps) =
    (\<not> fst (aws w k args) \<and> every_command_succeeded w (Suc k) steps)"
| "every_command_succeeded w k (Clock # steps) = every_command_succeeded w (Suc k) steps"
| "every_command_succeeded w k (TempFile name contents # steps) =
    every_command_succeeded w (Suc k) steps"

definition claimed :: "world \<Rightarrow> step list \<Rightarrow> string" where
  "claimed w steps = (if every_command_succeeded w 0 steps then ''OK'' else ''DENIED'')"

text \<open>
  The simpler function that the checks are equivalent to. It takes the steps in order
  and never looks at the text of an error: a command that fails, or a temporary file
  that cannot be written, ends the run with \<^verbatim>\<open>DENIED\<close>; a best-effort command is
  run and its error dropped; a temporary file that was written is removed when the run
  ends; a run that reaches the end of its steps answers \<^verbatim>\<open>OK\<close>. \<open>simple\<close> gives the
  verdict and the calls made. \<open>counted_steps_succeed\<close> says that the steps whose
  failure counts succeed, the temporary file and the commands that are not best effort.
\<close>

fun simple :: "world \<Rightarrow> nat \<Rightarrow> step list \<Rightarrow> string \<times> call list" where
  "simple w k [] = (''OK'', [])"
| "simple w k (Clock # steps) = (let r = simple w (Suc k) steps in (fst r, Now # snd r))"
| "simple w k (Command args # steps) =
    (if fst (aws w k args) then (''DENIED'', [ExecOutput args])
     else (let r = simple w (Suc k) steps in (fst r, ExecOutput args # snd r)))"
| "simple w k (BestEffort args # steps) =
    (let r = simple w (Suc k) steps in (fst r, ExecRun args # snd r))"
| "simple w k (TempFile name contents # steps) =
    (if writeFile w k name contents \<noteq> None then (''DENIED'', [WriteFile name contents])
     else (let r = simple w (Suc k) steps
           in (fst r, WriteFile name contents # snd r @ [Remove name])))"

fun counted_steps_succeed :: "world \<Rightarrow> nat \<Rightarrow> step list \<Rightarrow> bool" where
  "counted_steps_succeed w k [] = True"
| "counted_steps_succeed w k (Command args # steps) =
    (\<not> fst (aws w k args) \<and> counted_steps_succeed w (Suc k) steps)"
| "counted_steps_succeed w k (TempFile name contents # steps) =
    (writeFile w k name contents = None \<and> counted_steps_succeed w (Suc k) steps)"
| "counted_steps_succeed w k (BestEffort args # steps) = counted_steps_succeed w (Suc k) steps"
| "counted_steps_succeed w k (Clock # steps) = counted_steps_succeed w (Suc k) steps"

fun is_Sleep :: "event \<Rightarrow> bool" where
  "is_Sleep (Sleep d) = True"
| "is_Sleep ev = False"

section \<open>Worlds for the examples\<close>

text \<open>\<open>quiet\<close> is a world in which every command succeeds and prints nothing, the
  SDK client reports no configuration and an empty policy, and the clock stands at 0.
  The other worlds change some answers of it.\<close>

definition quiet :: world where
  "quiet =
    \<lparr>unixNano = (\<lambda>k. 0), aws = (\<lambda>k args. (False, [])), writeFile = (\<lambda>k name contents. None),
     sdkGetPublicAccessBlock = (\<lambda>k bucket. Output None),
     sdkGetBucketPolicy = (\<lambda>k bucket. Output (Some []))\<rparr>"

text \<open>Texts a failed command may print. The combined output holds standard error as
  well, where a warning of the tool may stand before its error message.\<close>

definition not_found_404 :: string where
  "not_found_404 = ''An error occurred (404) when calling the HeadObject operation: Not Found''"

definition forbidden_403 :: string where
  "forbidden_403 = ''An error occurred (403) when calling the HeadObject operation: Forbidden''"

definition refused_404 :: string where
  "refused_404 =
    ''utils.py:404: DeprecationWarning. An error occurred (403) when calling the HeadObject operation: Forbidden''"

definition timed_out :: string where
  "timed_out = ''Connect timeout on endpoint URL''"

definition public_read_policy :: string where
  \<open>public_read_policy =
    ''{"Statement":[{"Effect":"Allow","Principal":"*","Action":"s3:GetObject"}]}''\<close>

text \<open>The command that is call \<open>n\<close> of the check fails and prints \<open>out\<close>.\<close>

definition failing_at :: "nat \<Rightarrow> string \<Rightarrow> world" where
  "failing_at n out = quiet\<lparr>aws := (\<lambda>k args. if k = n then (True, out) else (False, []))\<rparr>"


text \<open>
  The command line tool prints the answer of \<^verbatim>\<open>get-bucket-policy\<close> as a JSON
  document whose member \<^verbatim>\<open>Policy\<close> is the policy text as a JSON string: between
  quotes, with a backslash before every quote and every backslash of the text.
\<close>

fun json_escape :: "string \<Rightarrow> string" where
  "json_escape [] = []"
| "json_escape (ch # str) =
    (if ch = CHR 0x22 \<or> ch = CHR 0x5C then [CHR 0x5C, ch] else [ch]) @ json_escape str"

definition json_string :: "string \<Rightarrow> string" where
  "json_string str = [CHR 0x22] @ json_escape str @ [CHR 0x22]"

definition printed_policy :: "string \<Rightarrow> string" where
  \<open>printed_policy policyText =
    ''{'' @ newline @ ''    "Policy": '' @ json_string policyText @ newline @ ''}'' @ newline\<close>

text \<open>
  The anonymous read of \<open>checkAnonGet\<close>, its call 2, times out, and the bucket has
  the policy \<open>policyText\<close>: the command line tool prints it as it prints a policy, and
  the SDK client returns its text.
\<close>

definition bucket_with_policy :: "string \<Rightarrow> world" where
  "bucket_with_policy policyText =
    quiet\<lparr>aws := (\<lambda>k args. if k = 2 then (True, timed_out)
                          else if k = 3 then (False, printed_policy policyText)
                          else (False, [])),
          sdkGetBucketPolicy := (\<lambda>k bucket. Output (Some policyText))\<rparr>"

text \<open>The anonymous read times out, and the SDK client answers the request for the
  policy with no error and no policy text.\<close>

definition nil_policy :: world where
  "nil_policy = (failing_at 2 timed_out)\<lparr>sdkGetBucketPolicy := (\<lambda>k bucket. Output None)\<rparr>"

text \<open>No file can be written: the bucket name \<^verbatim>\<open>a/b\<close> makes the temporary file
  \<^verbatim>\<open>/tmp/test-a/b-0\<close>, in a directory that does not exist.\<close>

definition unwritable :: world where
  "unwritable = quiet\<lparr>writeFile := (\<lambda>k name contents. Some ''no such file or directory'')\<rparr>"

text \<open>Nothing can be reached: every command and every call of the SDK client times
  out.\<close>

definition down :: world where
  "down =
    quiet\<lparr>aws := (\<lambda>k args. (True, timed_out)),
          sdkGetPublicAccessBlock := (\<lambda>k bucket. Failed timed_out),
          sdkGetBucketPolicy := (\<lambda>k bucket. Failed timed_out)\<rparr>"

text \<open>Every check of every bucket runs against the same world; or the checks of the
  first identifier run against \<open>down\<close> and the others against \<open>quiet\<close>.\<close>

definition everywhere :: "world \<Rightarrow> env" where
  "everywhere w = \<lparr>probe = (\<lambda>i f. w), finish = (\<lambda>i f. 0)\<rparr>"

definition first_down :: env where
  "first_down = \<lparr>probe = (\<lambda>i f. if i = 0 then down else quiet), finish = (\<lambda>i f. 0)\<rparr>"

definition all_verdicts :: "string \<Rightarrow> string \<Rightarrow> BucketResult" where
  "all_verdicts bucketName v =
    \<lparr>BucketName = bucketName, GetACL = v, PutACL = v, AnonGet = v, AuthGet = v,
     AnonWrite = v, AuthWrite = v, AnonDel = v, AuthDel = v\<rparr>"

section \<open>What a check returns and does, in closed form\<close>

text \<open>
  Each check is a chain of calls that stops at the first failure it reads. The lemmas
  of this section give, for every check, its verdict and its calls as one expression
  over the answers of the world; the logging does not appear in them.
\<close>

lemmas prims = CombinedOutput_def time_Now_UnixNano_def os_WriteFile_def defer_os_Remove_def
  Run_ignored_def Fprintf_Stderr_def client_GetPublicAccessBlock_def client_GetBucketPolicy_def
  did_def start_def outcome_def

lemmas names = s3api_def testKey_def tmpFile_def eval_nat_numeral

lemma Contains_iff_sublist: "Contains s substr = sublist substr s"
  by (induction s) (simp_all add: sublist_Cons_right)

text \<open>What is left starts and ends with no white space; a no-break space is trimmed,
  a stray continuation byte is not.\<close>

lemma TrimLeft_done: "spaceWidth (TrimLeft s) = 0"
  by (induction s rule: TrimLeft.induct) (subst TrimLeft.simps, simp)

lemma TrimRight_done: "spaceWidthEnd (TrimRight s) = 0"
  by (induction s rule: TrimRight.induct) (subst TrimRight.simps, simp)

lemma TrimSpace_no_break_space:
  "TrimSpace [CHR 0xC2, CHR 0xA0, CHR ''a'', CHR 0x20, CHR 0xE2, CHR 0x80, CHR 0xA8] = ''a''"
  "TrimSpace [CHR 0xA0, CHR ''a''] = [CHR 0xA0, CHR ''a'']"
  by (simp_all add: TrimSpace_def TrimLeft.simps TrimRight.simps spaceWidth_def spaceWidthEnd_def
      unicodeSpaces_def suffix_to_prefix)

lemma fst_run: "outcome r = x \<Longrightarrow> fst r = fst x"
  by (auto simp: outcome_def)


lemma case_blocked:
  "(case p of (True, s1) \<Rightarrow> A s1 | (False, s1) \<Rightarrow> B s1) = (if fst p then A (snd p) else B (snd p))"
  by (cases p) (simp split: bool.splits)

lemma GetACL_run:
  "outcome (checkGetACLWithContext w c b) =
    (if fst (aws w 0 (s3api ''get-bucket-acl'' b [])) then ''DENIED'' else ''OK'',
     [ExecOutput (s3api ''get-bucket-acl'' b [])])"
  by (simp add: checkGetACLWithContext_def prims names Let_def split_beta)

lemma PutACL_run:
  "outcome (checkPutACLWithContext w c b) =
    (let get = s3api ''get-bucket-acl'' b [];
         r = aws w 0 get;
         tmp = ''/tmp/acl-'' @ b @ ''-'' @ FormatInt (sint (unixNano w 1)) @ ''.json'';
         put = s3api ''put-bucket-acl'' b [''--access-control-policy'', ''file://'' @ tmp]
     in if fst r then (''DENIED'', [ExecOutput get])
        else if writeFile w 2 tmp (snd r) \<noteq> None
        then (''DENIED'', [ExecOutput get, Now, WriteFile tmp (snd r)])
        else (if fst (aws w 3 put) then ''DENIED'' else ''OK'',
              [ExecOutput get, Now, WriteFile tmp (snd r), ExecOutput put, Remove tmp]))"
  by (auto simp add: checkPutACLWithContext_def prims names Let_def split_beta split: option.splits)

lemma AuthGet_run:
  "outcome (checkAuthGet w c b) =
    (let head = s3api ''head-object'' b [''--key'', testKey ''test-'' w 0];
         r = aws w 1 head
     in (if fst r \<and> \<not> not_found_text (snd r) then ''DENIED'' else ''OK'',
         [Now, ExecOutput head]))"
  by (auto simp add: checkAuthGet_def prims names Let_def split_beta split: option.splits)

lemma AuthWrite_run:
  "outcome (checkAuthWrite w c b) =
    (let key = testKey ''test-auth-write-'' w 0;
         tmp = tmpFile b w 1;
         put = s3api ''put-object'' b [''--key'', key, ''--body'', tmp]
     in if writeFile w 2 tmp ''test'' \<noteq> None
        then (''DENIED'', [Now, Now, WriteFile tmp ''test''])
        else if fst (aws w 3 put)
        then (''DENIED'', [Now, Now, WriteFile tmp ''test'', ExecOutput put, Remove tmp])
        else (''OK'', [Now, Now, WriteFile tmp ''test'', ExecOutput put,
                      ExecRun (s3api ''delete-object'' b [''--key'', key]), Remove tmp]))"
  by (auto simp add: checkAuthWrite_def prims names Let_def split_beta split: option.splits)

lemma AuthDel_run:
  "outcome (checkAuthDel w c b) =
    (let key = testKey ''test-auth-del-'' w 0;
         tmp = tmpFile b w 1;
         put = s3api ''put-object'' b [''--key'', key, ''--body'', tmp];
         del = s3api ''delete-object'' b [''--key'', key]
     in if writeFile w 2 tmp ''test'' \<noteq> None
        then (''DENIED'', [Now, Now, WriteFile tmp ''test''])
        else if fst (aws w 3 put)
        then (''DENIED'', [Now, Now, WriteFile tmp ''test'', ExecOutput put, Remove tmp])
        else (if fst (aws w 4 del) then ''DENIED'' else ''OK'',
              [Now, Now, WriteFile tmp ''test'', ExecOutput put, ExecOutput del, Remove tmp]))"
  by (auto simp add: checkAuthDel_def prims names Let_def split_beta split: option.splits)

lemma anonPut_run:
  "outcome (anonPut w c b s) =
    (let k = length (calls s);
         key = testKey ''test-anon-write-'' w k;
         tmp = tmpFile b w (k + 1);
         put = s3api ''put-object'' b [''--key'', key, ''--body'', tmp, ''--no-sign-request'']
     in if writeFile w (k + 2) tmp ''test'' \<noteq> None
        then (''DENIED'', calls s @ [Now, Now, WriteFile tmp ''test''])
        else if fst (aws w (k + 3) put)
        then (''DENIED'', calls s @ [Now, Now, WriteFile tmp ''test'', ExecOutput put, Remove tmp])
        else (''OK'', calls s @ [Now, Now, WriteFile tmp ''test'', ExecOutput put,
                      ExecRun (s3api ''delete-object'' b [''--key'', key, ''--no-sign-request'']),
                      Remove tmp]))"
  by (auto simp add: anonPut_def prims names Let_def split_beta split: option.splits)

lemma anonDelete_run:
  "outcome (anonDelete w c b s) =
    (let k = length (calls s);
         key = testKey ''test-anon-del-'' w k;
         tmp = tmpFile b w (k + 1);
         put = s3api ''put-object'' b [''--key'', key, ''--body'', tmp];
         del = s3api ''delete-object'' b [''--key'', key, ''--no-sign-request''];
         cleanup = s3api ''delete-object'' b [''--key'', key]
     in if writeFile w (k + 2) tmp ''test'' \<noteq> None
        then (''DENIED'', calls s @ [Now, Now, WriteFile tmp ''test''])
        else if fst (aws w (k + 3) put)
        then (''DENIED'', calls s @ [Now, Now, WriteFile tmp ''test'', ExecOutput put, Remove tmp])
        else if fst (aws w (k + 4) del)
        then (''DENIED'', calls s @ [Now, Now, WriteFile tmp ''test'', ExecOutput put,
                          ExecOutput del, ExecRun cleanup, Remove tmp])
        else (''OK'', calls s @ [Now, Now, WriteFile tmp ''test'', ExecOutput put, ExecOutput del,
                      Remove tmp]))"
  by (auto simp add: anonDelete_def prims names Let_def split_beta split: option.splits)

lemma policy_run:
  "outcome (checkBucketPolicyForAnonGet w c b s) =
    (let get = s3api ''get-bucket-policy'' b [];
         r = aws w (length (calls s)) get
     in (if \<not> fst r \<and> permissive_policy (snd r) then ''OK'' else ''DENIED'',
         calls s @ [ExecOutput get]))"
  by (auto simp add: checkBucketPolicyForAnonGet_def prims names Let_def split_beta split: option.splits)

lemma policy_sdk_run:
  "outcome (checkBucketPolicyForAnonGet_sdk w c b s) =
    (policy_answer (sdkGetBucketPolicy w (length (calls s)) b), calls s @ [GetBucketPolicy b])"
  by (auto simp add: checkBucketPolicyForAnonGet_sdk_def prims names Let_def split_beta
      split: sdk.splits option.splits)

lemma blocked_run:
  "(fst (publicAccessBlocked w c tag b s), calls (snd (publicAccessBlocked w c tag b s))) =
     (pab_blocks w (length (calls s)) b, calls s @ [ExecOutput (s3api ''get-public-access-block'' b [])])"
  by (auto simp add: publicAccessBlocked_def pab_blocks_def prims names Let_def split_beta)

lemma blocked_sdk_run:
  "(fst (publicAccessBlocked_sdk w c tag b s), calls (snd (publicAccessBlocked_sdk w c tag b s))) =
     (pab_blocks_sdk w (length (calls s)) b, calls s @ [GetPublicAccessBlock b])"
  by (auto simp add: publicAccessBlocked_sdk_def pab_blocks_sdk_def any_flag_def prims names Let_def split_beta
      split: sdk.splits option.splits)

lemma blocked_fst: "fst (publicAccessBlocked w c tag b s) = pab_blocks w (length (calls s)) b"
  and blocked_calls: "calls (snd (publicAccessBlocked w c tag b s)) = calls s @ [ExecOutput (s3api ''get-public-access-block'' b [])]"
  using blocked_run[of w c tag b s] by simp_all

lemma blocked_sdk_fst: "fst (publicAccessBlocked_sdk w c tag b s) = pab_blocks_sdk w (length (calls s)) b"
  and blocked_sdk_calls: "calls (snd (publicAccessBlocked_sdk w c tag b s)) = calls s @ [GetPublicAccessBlock b]"
  using blocked_sdk_run[of w c tag b s] by simp_all

lemma anonHead_cli:
  "outcome (anonHead w c b key s) =
    (let k = length (calls s);
         head = s3api ''head-object'' b [''--key'', key, ''--no-sign-request''];
         r = aws w k head;
         policy = s3api ''get-bucket-policy'' b [];
         p = aws w (k + 1) policy
     in if \<not> fst r \<or> not_found_text (snd r) then (''OK'', calls s @ [ExecOutput head])
        else if denied_text (snd r) then (''DENIED'', calls s @ [ExecOutput head])
        else (if \<not> fst p \<and> permissive_policy (snd p) then ''OK'' else ''DENIED'',
              calls s @ [ExecOutput head, ExecOutput policy]))"
  using policy_run[of w c b "did (ExecOutput (s3api ''head-object'' b [''--key'', key, ''--no-sign-request''])) s"]
    policy_run[of w c b "Fprintf_Stderr X (did (ExecOutput (s3api ''head-object'' b [''--key'', key, ''--no-sign-request''])) s)" for X]
  by (auto simp add: anonHead_def prims names Let_def split_beta)

lemma anonHead_sdk:
  "outcome (anonHead_sdk w c b key s) =
    (let k = length (calls s);
         head = s3api ''head-object'' b [''--key'', key, ''--no-sign-request''];
         r = aws w k head
     in if \<not> fst r \<or> not_found_text (snd r) then (Return ''OK'', calls s @ [ExecOutput head])
        else if denied_text (snd r) then (Return ''DENIED'', calls s @ [ExecOutput head])
        else (policy_answer (sdkGetBucketPolicy w (k + 1) b),
              calls s @ [ExecOutput head, GetBucketPolicy b]))"
  using policy_sdk_run[of w c b "did (ExecOutput (s3api ''head-object'' b [''--key'', key, ''--no-sign-request''])) s"]
    policy_sdk_run[of w c b "Fprintf_Stderr X (did (ExecOutput (s3api ''head-object'' b [''--key'', key, ''--no-sign-request''])) s)" for X]
  by (auto simp add: anonHead_sdk_def prims names Let_def split_beta)

lemma after_block:
  assumes "fst p = blk" and "calls (snd p) = cs"
    and "\<And>s. calls s = cs \<Longrightarrow> outcome (rest s) = R"
  shows "outcome (case p of (True, s1) \<Rightarrow> (D, s1) | (False, s1) \<Rightarrow> rest s1) =
          (if blk then (D, cs) else R)"
  using assms by (simp add: case_blocked outcome_def)

lemma start_calls: "calls start = []" and did_calls: "calls (did x s) = calls s @ [x]"
  by (simp_all add: start_def did_def)

lemma AnonGet_run:
  "outcome (checkAnonGet w c b) =
    (let pab = s3api ''get-public-access-block'' b [];
         head = s3api ''head-object'' b [''--key'', testKey ''test-'' w 0, ''--no-sign-request''];
         r = aws w 2 head;
         policy = s3api ''get-bucket-policy'' b [];
         p = aws w 3 policy
     in if pab_blocks w 1 b then (''DENIED'', [Now, ExecOutput pab])
        else if \<not> fst r \<or> not_found_text (snd r) then (''OK'', [Now, ExecOutput pab, ExecOutput head])
        else if denied_text (snd r) then (''DENIED'', [Now, ExecOutput pab, ExecOutput head])
        else (if \<not> fst p \<and> permissive_policy (snd p) then ''OK'' else ''DENIED'',
              [Now, ExecOutput pab, ExecOutput head, ExecOutput policy]))"
  unfolding checkAnonGet_def time_Now_UnixNano_def prod.case Let_def
  by (subst after_block[where blk = "pab_blocks w 1 b"
          and cs = "[Now, ExecOutput (s3api ''get-public-access-block'' b [])]"])
     (simp_all add: blocked_fst blocked_calls start_calls did_calls anonHead_cli Let_def testKey_def
        eval_nat_numeral)

lemma AnonGet_sdk_run:
  "outcome (checkAnonGet_sdk w c b) =
    (let head = s3api ''head-object'' b [''--key'', testKey ''test-'' w 0, ''--no-sign-request''];
         r = aws w 2 head
     in if pab_blocks_sdk w 1 b then (Return ''DENIED'', [Now, GetPublicAccessBlock b])
        else if \<not> fst r \<or> not_found_text (snd r)
        then (Return ''OK'', [Now, GetPublicAccessBlock b, ExecOutput head])
        else if denied_text (snd r)
        then (Return ''DENIED'', [Now, GetPublicAccessBlock b, ExecOutput head])
        else (policy_answer (sdkGetBucketPolicy w 3 b),
              [Now, GetPublicAccessBlock b, ExecOutput head, GetBucketPolicy b]))"
  unfolding checkAnonGet_sdk_def time_Now_UnixNano_def prod.case Let_def
  by (subst after_block[where blk = "pab_blocks_sdk w 1 b" and cs = "[Now, GetPublicAccessBlock b]"])
     (simp_all add: blocked_sdk_fst blocked_sdk_calls start_calls did_calls anonHead_sdk Let_def
        testKey_def eval_nat_numeral)

lemma AnonWrite_run:
  "outcome (checkAnonWrite w c b) =
    (let pab = s3api ''get-public-access-block'' b [];
         key = testKey ''test-anon-write-'' w 1;
         tmp = tmpFile b w 2;
         put = s3api ''put-object'' b [''--key'', key, ''--body'', tmp, ''--no-sign-request'']
     in if pab_blocks w 0 b then (''DENIED'', [ExecOutput pab])
        else if writeFile w 3 tmp ''test'' \<noteq> None
        then (''DENIED'', [ExecOutput pab, Now, Now, WriteFile tmp ''test''])
        else if fst (aws w 4 put)
        then (''DENIED'', [ExecOutput pab, Now, Now, WriteFile tmp ''test'', ExecOutput put, Remove tmp])
        else (''OK'', [ExecOutput pab, Now, Now, WriteFile tmp ''test'', ExecOutput put,
                      ExecRun (s3api ''delete-object'' b [''--key'', key, ''--no-sign-request'']),
                      Remove tmp]))"
  unfolding checkAnonWrite_def
  by (subst after_block[where blk = "pab_blocks w 0 b"
          and cs = "[ExecOutput (s3api ''get-public-access-block'' b [])]"])
     (simp_all add: blocked_fst blocked_calls start_calls anonPut_run Let_def eval_nat_numeral)

lemma AnonWrite_sdk_run:
  "outcome (checkAnonWrite_sdk w c b) =
    (let key = testKey ''test-anon-write-'' w 1;
         tmp = tmpFile b w 2;
         put = s3api ''put-object'' b [''--key'', key, ''--body'', tmp, ''--no-sign-request'']
     in if pab_blocks_sdk w 0 b then (''DENIED'', [GetPublicAccessBlock b])
        else if writeFile w 3 tmp ''test'' \<noteq> None
        then (''DENIED'', [GetPublicAccessBlock b, Now, Now, WriteFile tmp ''test''])
        else if fst (aws w 4 put)
        then (''DENIED'', [GetPublicAccessBlock b, Now, Now, WriteFile tmp ''test'', ExecOutput put,
                          Remove tmp])
        else (''OK'', [GetPublicAccessBlock b, Now, Now, WriteFile tmp ''test'', ExecOutput put,
                      ExecRun (s3api ''delete-object'' b [''--key'', key, ''--no-sign-request'']),
                      Remove tmp]))"
  unfolding checkAnonWrite_sdk_def
  by (subst after_block[where blk = "pab_blocks_sdk w 0 b" and cs = "[GetPublicAccessBlock b]"])
     (simp_all add: blocked_sdk_fst blocked_sdk_calls start_calls anonPut_run Let_def eval_nat_numeral)

lemma AnonDel_run:
  "outcome (checkAnonDel w c b) =
    (let pab = s3api ''get-public-access-block'' b [];
         key = testKey ''test-anon-del-'' w 1;
         tmp = tmpFile b w 2;
         put = s3api ''put-object'' b [''--key'', key, ''--body'', tmp];
         del = s3api ''delete-object'' b [''--key'', key, ''--no-sign-request''];
         cleanup = s3api ''delete-object'' b [''--key'', key]
     in if pab_blocks w 0 b then (''DENIED'', [ExecOutput pab])
        else if writeFile w 3 tmp ''test'' \<noteq> None
        then (''DENIED'', [ExecOutput pab, Now, Now, WriteFile tmp ''test''])
        else if fst (aws w 4 put)
        then (''DENIED'', [ExecOutput pab, Now, Now, WriteFile tmp ''test'', ExecOutput put, Remove tmp])
        else if fst (aws w 5 del)
        then (''DENIED'', [ExecOutput pab, Now, Now, WriteFile tmp ''test'', ExecOutput put,
                          ExecOutput del, ExecRun cleanup, Remove tmp])
        else (''OK'', [ExecOutput pab, Now, Now, WriteFile tmp ''test'', ExecOutput put,
                      ExecOutput del, Remove tmp]))"
  unfolding checkAnonDel_def
  by (subst after_block[where blk = "pab_blocks w 0 b"
          and cs = "[ExecOutput (s3api ''get-public-access-block'' b [])]"])
     (simp_all add: blocked_fst blocked_calls start_calls anonDelete_run Let_def eval_nat_numeral)

lemma AnonDel_sdk_run:
  "outcome (checkAnonDel_sdk w c b) =
    (let key = testKey ''test-anon-del-'' w 1;
         tmp = tmpFile b w 2;
         put = s3api ''put-object'' b [''--key'', key, ''--body'', tmp];
         del = s3api ''delete-object'' b [''--key'', key, ''--no-sign-request''];
         cleanup = s3api ''delete-object'' b [''--key'', key]
     in if pab_blocks_sdk w 0 b then (''DENIED'', [GetPublicAccessBlock b])
        else if writeFile w 3 tmp ''test'' \<noteq> None
        then (''DENIED'', [GetPublicAccessBlock b, Now, Now, WriteFile tmp ''test''])
        else if fst (aws w 4 put)
        then (''DENIED'', [GetPublicAccessBlock b, Now, Now, WriteFile tmp ''test'', ExecOutput put,
                          Remove tmp])
        else if fst (aws w 5 del)
        then (''DENIED'', [GetPublicAccessBlock b, Now, Now, WriteFile tmp ''test'', ExecOutput put,
                          ExecOutput del, ExecRun cleanup, Remove tmp])
        else (''OK'', [GetPublicAccessBlock b, Now, Now, WriteFile tmp ''test'', ExecOutput put,
                      ExecOutput del, Remove tmp]))"
  unfolding checkAnonDel_sdk_def
  by (subst after_block[where blk = "pab_blocks_sdk w 0 b" and cs = "[GetPublicAccessBlock b]"])
     (simp_all add: blocked_sdk_fst blocked_sdk_calls start_calls anonDelete_run Let_def eval_nat_numeral)

section \<open>Every check that returns, returns a verdict\<close>

lemma verdict_of_outcome: "verdict (fst (outcome r)) \<Longrightarrow> verdict (fst r)"
  by (simp add: outcome_def)

lemma v_GetACL: "verdict (fst (checkGetACLWithContext w c b))"
  by (rule verdict_of_outcome) (simp add: GetACL_run Let_def verdict_def split: sdk.splits)

lemma v_PutACL: "verdict (fst (checkPutACLWithContext w c b))"
  by (rule verdict_of_outcome) (simp add: PutACL_run Let_def verdict_def split: sdk.splits)

lemma v_AnonGet: "verdict (fst (checkAnonGet w c b))"
  by (rule verdict_of_outcome) (simp add: AnonGet_run Let_def verdict_def split: sdk.splits)

lemma policy_answer_cases:
  "policy_answer p = Return ''OK'' \<or> policy_answer p = Return ''DENIED'' \<or>
   policy_answer p = Panic nil_dereference"
  by (cases p rule: policy_answer.cases) simp_all

lemma AnonGet_sdk_cases:
  "fst (checkAnonGet_sdk w c b) = Return ''OK'' \<or> fst (checkAnonGet_sdk w c b) = Return ''DENIED'' \<or>
   fst (checkAnonGet_sdk w c b) = Panic nil_dereference"
  using policy_answer_cases[of "sdkGetBucketPolicy w 3 b"]
  by (auto simp add: AnonGet_sdk_run[THEN fst_run] Let_def)

lemma v_AnonGet_sdk: "fst (checkAnonGet_sdk w c b) = Return v \<Longrightarrow> verdict v"
  using AnonGet_sdk_cases[of w c b] by (auto simp add: verdict_def)

lemma v_AuthGet: "verdict (fst (checkAuthGet w c b))"
  by (rule verdict_of_outcome) (simp add: AuthGet_run Let_def verdict_def split: sdk.splits)

lemma v_AnonWrite: "verdict (fst (checkAnonWrite w c b))"
  by (rule verdict_of_outcome) (simp add: AnonWrite_run Let_def verdict_def split: sdk.splits)

lemma v_AnonWrite_sdk: "verdict (fst (checkAnonWrite_sdk w c b))"
  by (rule verdict_of_outcome) (simp add: AnonWrite_sdk_run Let_def verdict_def split: sdk.splits)

lemma v_AuthWrite: "verdict (fst (checkAuthWrite w c b))"
  by (rule verdict_of_outcome) (simp add: AuthWrite_run Let_def verdict_def split: sdk.splits)

lemma v_AnonDel: "verdict (fst (checkAnonDel w c b))"
  by (rule verdict_of_outcome) (simp add: AnonDel_run Let_def verdict_def split: sdk.splits)

lemma v_AnonDel_sdk: "verdict (fst (checkAnonDel_sdk w c b))"
  by (rule verdict_of_outcome) (simp add: AnonDel_sdk_run Let_def verdict_def split: sdk.splits)

lemma v_AuthDel: "verdict (fst (checkAuthDel w c b))"
  by (rule verdict_of_outcome) (simp add: AuthDel_run Let_def verdict_def split: sdk.splits)

section \<open>The driver, in closed form\<close>

lemma collect_BucketName: "BucketName (collect ms r) = BucketName r"
  by (induction ms arbitrary: r) simp_all

lemma collect_more: "BucketResult.more (collect ms r) = BucketResult.more r"
  by (induction ms arbitrary: r) simp_all

lemma collect_GetACL:
  "GetACL (collect ms r) =
    (case filter (\<lambda>res. fst res = ''GetACL'') ms of [] \<Rightarrow> GetACL r | vs \<Rightarrow> snd (last vs))"
  by (induction ms arbitrary: r) (simp_all split: list.splits)

lemma collect_PutACL:
  "PutACL (collect ms r) =
    (case filter (\<lambda>res. fst res = ''PutACL'') ms of [] \<Rightarrow> PutACL r | vs \<Rightarrow> snd (last vs))"
  by (induction ms arbitrary: r) (simp_all split: list.splits)

lemma collect_AnonGet:
  "AnonGet (collect ms r) =
    (case filter (\<lambda>res. fst res = ''AnonGet'') ms of [] \<Rightarrow> AnonGet r | vs \<Rightarrow> snd (last vs))"
  by (induction ms arbitrary: r) (simp_all split: list.splits)

lemma collect_AuthGet:
  "AuthGet (collect ms r) =
    (case filter (\<lambda>res. fst res = ''AuthGet'') ms of [] \<Rightarrow> AuthGet r | vs \<Rightarrow> snd (last vs))"
  by (induction ms arbitrary: r) (simp_all split: list.splits)

lemma collect_AnonWrite:
  "AnonWrite (collect ms r) =
    (case filter (\<lambda>res. fst res = ''AnonWrite'') ms of [] \<Rightarrow> AnonWrite r | vs \<Rightarrow> snd (last vs))"
  by (induction ms arbitrary: r) (simp_all split: list.splits)

lemma collect_AuthWrite:
  "AuthWrite (collect ms r) =
    (case filter (\<lambda>res. fst res = ''AuthWrite'') ms of [] \<Rightarrow> AuthWrite r | vs \<Rightarrow> snd (last vs))"
  by (induction ms arbitrary: r) (simp_all split: list.splits)

lemma collect_AnonDel:
  "AnonDel (collect ms r) =
    (case filter (\<lambda>res. fst res = ''AnonDel'') ms of [] \<Rightarrow> AnonDel r | vs \<Rightarrow> snd (last vs))"
  by (induction ms arbitrary: r) (simp_all split: list.splits)

lemma collect_AuthDel:
  "AuthDel (collect ms r) =
    (case filter (\<lambda>res. fst res = ''AuthDel'') ms of [] \<Rightarrow> AuthDel r | vs \<Rightarrow> snd (last vs))"
  by (induction ms arbitrary: r) (simp_all split: list.splits)

lemmas collect_fields = collect_GetACL collect_PutACL collect_AnonGet collect_AuthGet
  collect_AnonWrite collect_AuthWrite collect_AnonDel collect_AuthDel

lemma filter_resultsChan:
  "filter P (resultsChan sent msgs) = sort_key (\<lambda>res. sent (fst res)) (filter P msgs)"
  by (simp add: resultsChan_def filter_sort)

lemma checkBucket_eq:
  "checkBucket e c i b =
    \<lparr>BucketName = b,
     GetACL = fst (checkGetACLWithContext (probe e i ''GetACL'') c b),
     PutACL = fst (checkPutACLWithContext (probe e i ''PutACL'') c b),
     AnonGet = fst (checkAnonGet (probe e i ''AnonGet'') c b),
     AuthGet = fst (checkAuthGet (probe e i ''AuthGet'') c b),
     AnonWrite = fst (checkAnonWrite (probe e i ''AnonWrite'') c b),
     AuthWrite = fst (checkAuthWrite (probe e i ''AuthWrite'') c b),
     AnonDel = fst (checkAnonDel (probe e i ''AnonDel'') c b),
     AuthDel = fst (checkAuthDel (probe e i ''AuthDel'') c b)\<rparr>"
  unfolding checkBucket_def
  by (rule BucketResult.equality)
     (simp_all add: collect_fields collect_BucketName collect_more filter_resultsChan goroutines_def newResult_def)

lemma checkBucket_sdk_eq:
  "checkBucket_sdk e c i b =
    (case fst (checkAnonGet_sdk (probe e i ''AnonGet'') c b) of
      Panic msg \<Rightarrow> Panic msg
    | Return v \<Rightarrow>
        Return
          \<lparr>BucketName = b,
           GetACL = fst (checkGetACLWithContext (probe e i ''GetACL'') c b),
           PutACL = fst (checkPutACLWithContext (probe e i ''PutACL'') c b),
           AnonGet = v,
           AuthGet = fst (checkAuthGet (probe e i ''AuthGet'') c b),
           AnonWrite = fst (checkAnonWrite_sdk (probe e i ''AnonWrite'') c b),
           AuthWrite = fst (checkAuthWrite (probe e i ''AuthWrite'') c b),
           AnonDel = fst (checkAnonDel_sdk (probe e i ''AnonDel'') c b),
           AuthDel = fst (checkAuthDel (probe e i ''AuthDel'') c b)\<rparr>)"
  by (simp add: checkBucket_sdk_def newResult_def Let_def split: result.splits)

lemma checkBucket_sdk_panic:
  "checkBucket_sdk e c i b = Panic msg \<Longrightarrow> msg = nil_dereference"
  using AnonGet_sdk_cases[of "probe e i ''AnonGet''" c b]
  by (auto simp add: checkBucket_sdk_eq split: result.splits)

lemma checkBucket_sdk_name: "checkBucket_sdk e c i b = Return r \<Longrightarrow> BucketName r = b"
  by (auto simp add: checkBucket_sdk_eq split: result.splits)

lemma sunk_append: "sunk (xs @ ys) = sunk xs @ sunk ys"
  by (induction xs rule: sunk.induct) simp_all

lemma sunk_stream:
  "sunk (stream e c n i bs) =
     map (\<lambda>(j, b). checkBucket e c j (TrimSpace b))
       (filter (\<lambda>(j, b). TrimSpace b \<noteq> []) (zip [i ..< i + length bs] bs))"
  by (induction bs arbitrary: i) (simp_all add: Let_def sunk_append upt_conv_Cons del: upt_Suc)

lemma complete_checkBucket: "complete (checkBucket e c i b)"
  by (simp add: checkBucket_eq complete_def v_GetACL v_PutACL v_AnonGet v_AuthGet v_AnonWrite
      v_AuthWrite v_AnonDel v_AuthDel)

lemma complete_checkBucket_sdk: "checkBucket_sdk e c i b = Return r \<Longrightarrow> complete r"
  using v_AnonGet_sdk[of "probe e i ''AnonGet''" c b]
  by (auto simp add: checkBucket_sdk_eq complete_def v_GetACL v_PutACL v_AuthGet
      v_AnonWrite_sdk v_AuthWrite v_AnonDel_sdk v_AuthDel split: result.splits)

lemma complete_stream_sdk: "list_all complete (sunk (snd (stream_sdk e c i bs)))"
  by (induction bs arbitrary: i)
     (auto simp add: Let_def complete_checkBucket_sdk split: result.splits)

lemma TrimSpace_bucket_a: "TrimSpace ''bucket-a'' = ''bucket-a''"
  by (simp add: TrimSpace_def TrimLeft.simps TrimRight.simps spaceWidth_def spaceWidthEnd_def
      unicodeSpaces_def suffix_to_prefix)

lemma TrimSpace_blank: "TrimSpace ''  '' = []"
  by (simp add: TrimSpace_def TrimLeft.simps TrimRight.simps spaceWidth_def spaceWidthEnd_def
      unicodeSpaces_def suffix_to_prefix)

lemma TrimSpace_empty: "TrimSpace [] = []"
  by (simp add: TrimSpace_def TrimLeft.simps TrimRight.simps spaceWidth_def spaceWidthEnd_def
      unicodeSpaces_def suffix_to_prefix)

lemma sunk_names:
  "map BucketName (sunk (stream e c n i bs)) = filter (\<lambda>b. b \<noteq> []) (map TrimSpace bs)"
  by (induction bs arbitrary: i) (simp_all add: Let_def sunk_append checkBucket_eq)

text \<open>
  The driver that runs the checks one after the other ends in one of two ways: it
  returns nil, or a check read through a nil pointer. The callback has received the
  results of the identifiers before the one whose checks panicked, and of all of them
  when the driver returned.
\<close>

lemma stream_sdk_ends:
  "fst (stream_sdk e c i bs) = Return None \<or> fst (stream_sdk e c i bs) = Panic nil_dereference"
  by (induction bs arbitrary: i)
     (auto simp add: Let_def split: result.splits dest: checkBucket_sdk_panic)

lemma sunk_names_sdk_prefix:
  "prefix (map BucketName (sunk (snd (stream_sdk e c i bs))))
     (filter (\<lambda>b. b \<noteq> []) (map TrimSpace bs))"
  by (induction bs arbitrary: i)
     (auto simp add: Let_def checkBucket_sdk_name split: result.splits)

lemma sunk_names_sdk:
  "fst (stream_sdk e c i bs) = Return x \<Longrightarrow>
   map BucketName (sunk (snd (stream_sdk e c i bs))) = filter (\<lambda>b. b \<noteq> []) (map TrimSpace bs)"
  by (induction bs arbitrary: i)
     (auto simp add: Let_def checkBucket_sdk_name split: result.splits if_splits)

lemma stream_events:
  "stream e c n i bs =
     concat (map (\<lambda>(j, b).
         if TrimSpace b = [] then []
         else [Probe (TrimSpace b), Sink (checkBucket e c j (TrimSpace b))]
              @ (if j + 1 < n then [Sleep (100 * Millisecond)] else []))
       (zip [i ..< i + length bs] bs))"
proof (induction bs arbitrary: i)
  case Nil
  show ?case by simp
next
  case (Cons b bs)
  have lt: "(int i < int n - 1) = (i + 1 < n)"
    by linarith
  show ?case
    by (simp add: Let_def upt_conv_Cons Cons.IH lt del: upt_Suc)
qed

text \<open>
  The driver with goroutines pauses after the result of every identifier that is not
  the last of the input: for \<^verbatim>\<open>bucketCheckDelay\<close>, before it begins the checks of
  the next one.
\<close>

lemma goroutine_driver_pauses:
  "snd (CheckBucketsStream e c bucketNames) =
     concat (map (\<lambda>(j, b).
         if TrimSpace b = [] then []
         else [Probe (TrimSpace b), Sink (checkBucket e c j (TrimSpace b))]
              @ (if j + 1 < length bucketNames then [Sleep bucketCheckDelay] else []))
       (zip [0 ..< length bucketNames] bucketNames))"
  unfolding bucketCheckDelay_def
  by (simp add: CheckBucketsStream_def stream_events)

lemma TrimSpace_examples:
  "TrimSpace ''b'' = ''b''" "TrimSpace ''b1'' = ''b1''" "TrimSpace ''b2'' = ''b2''"
  "TrimSpace ''b3'' = ''b3''"
  by (simp_all add: TrimSpace_def TrimLeft.simps TrimRight.simps spaceWidth_def spaceWidthEnd_def
      unicodeSpaces_def suffix_to_prefix)

lemma goroutine_driver_pauses_example:
  "snd (CheckBucketsStream e c [''b1'', ''b2'']) =
     [Probe ''b1'', Sink (checkBucket e c 0 ''b1''), Sleep 100000000,
      Probe ''b2'', Sink (checkBucket e c 1 ''b2'')]"
  by (simp add: CheckBucketsStream_def TrimSpace_examples Let_def Millisecond_def)

lemma stream_sdk_no_sleep: "\<not> list_ex is_Sleep (snd (stream_sdk e c i bs))"
  by (induction bs arbitrary: i) (simp_all add: Let_def split: result.splits)

section \<open>Verdicts and calls of the checks, as equations\<close>

lemmas verdict_eqs = GetACL_run[THEN fst_run] PutACL_run[THEN fst_run] AnonGet_run[THEN fst_run]
  AuthGet_run[THEN fst_run] AnonWrite_run[THEN fst_run] AuthWrite_run[THEN fst_run]
  AnonDel_run[THEN fst_run] AuthDel_run[THEN fst_run] AnonGet_sdk_run[THEN fst_run]
  AnonWrite_sdk_run[THEN fst_run] AnonDel_sdk_run[THEN fst_run]


text \<open>Neither the verdict nor the calls of a check depend on the checker it is given.\<close>

lemma run_independent:
  "outcome (checkGetACLWithContext w c b) = outcome (checkGetACLWithContext w c' b)"
  "outcome (checkPutACLWithContext w c b) = outcome (checkPutACLWithContext w c' b)"
  "outcome (checkAnonGet w c b) = outcome (checkAnonGet w c' b)"
  "outcome (checkAuthGet w c b) = outcome (checkAuthGet w c' b)"
  "outcome (checkAnonWrite w c b) = outcome (checkAnonWrite w c' b)"
  "outcome (checkAuthWrite w c b) = outcome (checkAuthWrite w c' b)"
  "outcome (checkAnonDel w c b) = outcome (checkAnonDel w c' b)"
  "outcome (checkAuthDel w c b) = outcome (checkAuthDel w c' b)"
  "outcome (checkAnonGet_sdk w c b) = outcome (checkAnonGet_sdk w c' b)"
  "outcome (checkAnonWrite_sdk w c b) = outcome (checkAnonWrite_sdk w c' b)"
  "outcome (checkAnonDel_sdk w c b) = outcome (checkAnonDel_sdk w c' b)"
  by (simp_all only: GetACL_run PutACL_run AnonGet_run AuthGet_run AnonWrite_run AuthWrite_run
      AnonDel_run AuthDel_run AnonGet_sdk_run AnonWrite_sdk_run AnonDel_sdk_run)

lemma verdict_independent:
  "fst (checkGetACLWithContext w c b) = fst (checkGetACLWithContext w c' b)"
  "fst (checkPutACLWithContext w c b) = fst (checkPutACLWithContext w c' b)"
  "fst (checkAnonGet w c b) = fst (checkAnonGet w c' b)"
  "fst (checkAuthGet w c b) = fst (checkAuthGet w c' b)"
  "fst (checkAnonWrite w c b) = fst (checkAnonWrite w c' b)"
  "fst (checkAuthWrite w c b) = fst (checkAuthWrite w c' b)"
  "fst (checkAnonDel w c b) = fst (checkAnonDel w c' b)"
  "fst (checkAuthDel w c b) = fst (checkAuthDel w c' b)"
  "fst (checkAnonGet_sdk w c b) = fst (checkAnonGet_sdk w c' b)"
  "fst (checkAnonWrite_sdk w c b) = fst (checkAnonWrite_sdk w c' b)"
  "fst (checkAnonDel_sdk w c b) = fst (checkAnonDel_sdk w c' b)"
  using run_independent[of w c b c'] by (simp_all add: outcome_def)

lemma checkBucket_independent:
  "checkBucket e c i b = checkBucket e c' i b" "checkBucket_sdk e c i b = checkBucket_sdk e c' i b"
  by (simp_all add: checkBucket_eq checkBucket_sdk_eq verdict_independent[of _ c _ c']
      cong: result.case_cong)

lemma stream_sdk_independent: "stream_sdk e c i bs = stream_sdk e c' i bs"
  by (induction bs arbitrary: i)
     (simp_all add: Let_def checkBucket_independent(2)[of e c _ _ c'] cong: result.case_cong)

text \<open>A checker that is not verbose writes nothing to standard error.\<close>

lemma silent_block: "\<not> verbose c \<Longrightarrow> stderr (snd (publicAccessBlocked w c tag b s)) = stderr s"
  by (simp add: publicAccessBlocked_def prims Let_def split_beta)

lemma silent_block_sdk: "\<not> verbose c \<Longrightarrow> stderr (snd (publicAccessBlocked_sdk w c tag b s)) = stderr s"
  by (simp add: publicAccessBlocked_sdk_def prims Let_def split_beta split: sdk.splits option.splits)

lemma silent_policy: "\<not> verbose c \<Longrightarrow> stderr (snd (checkBucketPolicyForAnonGet w c b s)) = stderr s"
  by (simp add: checkBucketPolicyForAnonGet_def prims Let_def split_beta)

lemma silent_policy_sdk:
  "\<not> verbose c \<Longrightarrow> stderr (snd (checkBucketPolicyForAnonGet_sdk w c b s)) = stderr s"
  by (simp add: checkBucketPolicyForAnonGet_sdk_def prims Let_def split_beta
      split: sdk.splits option.splits)

lemma silent_anonHead: "\<not> verbose c \<Longrightarrow> stderr (snd (anonHead w c b key s)) = stderr s"
  by (simp add: anonHead_def prims Let_def split_beta silent_policy)

lemma silent_anonHead_sdk: "\<not> verbose c \<Longrightarrow> stderr (snd (anonHead_sdk w c b key s)) = stderr s"
  by (simp add: anonHead_sdk_def prims Let_def split_beta silent_policy_sdk)

lemma silent_anonPut: "\<not> verbose c \<Longrightarrow> stderr (snd (anonPut w c b s)) = stderr s"
  by (simp add: anonPut_def prims Let_def split_beta split: option.splits)

lemma silent_anonDelete: "\<not> verbose c \<Longrightarrow> stderr (snd (anonDelete w c b s)) = stderr s"
  by (simp add: anonDelete_def prims Let_def split_beta split: option.splits)

lemma silent:
  assumes "\<not> verbose c"
  shows "stderr (snd (checkGetACLWithContext w c b)) = []"
    and "stderr (snd (checkPutACLWithContext w c b)) = []"
    and "stderr (snd (checkAuthGet w c b)) = []"
    and "stderr (snd (checkAuthWrite w c b)) = []"
    and "stderr (snd (checkAuthDel w c b)) = []"
    and "stderr (snd (checkAnonGet w c b)) = []"
    and "stderr (snd (checkAnonWrite w c b)) = []"
    and "stderr (snd (checkAnonDel w c b)) = []"
    and "stderr (snd (checkAnonGet_sdk w c b)) = []"
    and "stderr (snd (checkAnonWrite_sdk w c b)) = []"
    and "stderr (snd (checkAnonDel_sdk w c b)) = []"
  using assms
  by (simp_all add: checkGetACLWithContext_def checkPutACLWithContext_def checkAuthGet_def
      checkAuthWrite_def checkAuthDel_def checkAnonGet_def checkAnonWrite_def checkAnonDel_def
      checkAnonGet_sdk_def checkAnonWrite_sdk_def checkAnonDel_sdk_def
      prims Let_def split_beta silent_block silent_block_sdk silent_policy
      silent_policy_sdk silent_anonHead silent_anonHead_sdk silent_anonPut silent_anonDelete
      split: option.splits bool.splits)

section \<open>The example worlds, evaluated\<close>

lemma FormatInt_0: "FormatInt 0 = ''0''"
  by (simp add: FormatInt_def decimal.simps digits_def)

lemma texts:
  "not_found_text not_found_404" "\<not> denied_text not_found_404"
  "\<not> not_found_text forbidden_403" "denied_text forbidden_403"
  "not_found_text refused_404" "denied_text refused_404"
  "\<not> not_found_text timed_out" "\<not> denied_text timed_out"
  "permissive_policy public_read_policy"
  "\<not> not_found_text []" "\<not> denied_text []" "\<not> flag_true []" "\<not> permissive_policy []"
  by (simp_all add: not_found_text_def denied_text_def permissive_policy_def flag_true_def
      not_found_404_def forbidden_403_def refused_404_def timed_out_def public_read_policy_def)

lemma public_read_policy_grants: "grants_public_read public_read_policy"
  by (simp add: grants_public_read_def wildcard_principal_def get_object_action_def
      Contains_iff_sublist[symmetric] public_read_policy_def)

text \<open>
  Both patterns for the wildcard principal hold the letter l, a quote and a colon in a
  row. What the command line tool prints for a policy holds them nowhere: a quote of
  the policy text stands behind a backslash, the quote that ends the JSON string
  before a line feed, and the three quotes before the string behind a space or a y.
  So the policy fallback of the checker that searches this output finds no wildcard
  principal in it, whatever the policy.
\<close>

lemma json_escape_clean:
  "\<not> Contains (json_escape str @ [CHR 0x22, CHR 0x0A, CHR ''}'', CHR 0x0A])
        [CHR ''l'', CHR 0x22, CHR '':'']"
proof (induction str)
  case Nil
  show ?case by simp
next
  case (Cons ch str)
  show ?case
  proof (cases str)
    case Nil
    then show ?thesis by auto
  next
    case (Cons d str')
    with Cons.IH show ?thesis by auto
  qed
qed

lemma printed_policy_clean:
  "\<not> Contains (printed_policy policyText) [CHR ''l'', CHR 0x22, CHR '':'']"
  using json_escape_clean[of policyText]
  by (simp add: printed_policy_def json_string_def newline_def)

lemma Contains_trans: "Contains s t \<Longrightarrow> Contains t u \<Longrightarrow> Contains s u"
proof -
  assume "Contains s t" and "Contains t u"
  then obtain ps ss ps' ss' where "s = ps @ t @ ss" and "t = ps' @ u @ ss'"
    by (auto simp add: Contains_iff_sublist sublist_def)
  then have "s = (ps @ ps') @ u @ (ss' @ ss)"
    by simp
  then show ?thesis
    unfolding Contains_iff_sublist sublist_def by blast
qed

lemma printed_policy_unread: \<open>\<not> permissive_policy (printed_policy policyText)\<close>
proof
  assume \<open>permissive_policy (printed_policy policyText)\<close>
  then have \<open>Contains (printed_policy policyText) ''"Principal":"*"'' \<or>
      Contains (printed_policy policyText) ''"Principal":{"AWS":"*"}''\<close>
    by (simp add: permissive_policy_def)
  moreover have \<open>Contains ''"Principal":"*"'' [CHR ''l'', CHR 0x22, CHR '':'']\<close>
    and \<open>Contains ''"Principal":{"AWS":"*"}'' [CHR ''l'', CHR 0x22, CHR '':'']\<close>
    by simp_all
  ultimately have "Contains (printed_policy policyText) [CHR ''l'', CHR 0x22, CHR '':'']"
    by (blast intro: Contains_trans)
  with printed_policy_clean show False
    by blast
qed

lemma permissive_policy_grants: "permissive_policy policyText = grants_public_read policyText"
  by (simp add: permissive_policy_def grants_public_read_def wildcard_principal_def
      get_object_action_def Contains_iff_sublist)


lemma checkBucket_down:
  "checkBucket first_down c 0 b = all_verdicts b ''DENIED''"
  "checkBucket_sdk first_down c 0 b = Return (all_verdicts b ''DENIED'')"
  by (simp_all add: checkBucket_eq checkBucket_sdk_eq all_verdicts_def verdict_eqs Let_def
      first_down_def down_def quiet_def texts pab_blocks_def pab_blocks_sdk_def)

lemma checkBucket_up:
  "i \<noteq> 0 \<Longrightarrow> checkBucket first_down c i b = all_verdicts b ''OK''"
  "i \<noteq> 0 \<Longrightarrow> checkBucket_sdk first_down c i b = Return (all_verdicts b ''OK'')"
  by (simp_all add: checkBucket_eq checkBucket_sdk_eq all_verdicts_def verdict_eqs Let_def
      first_down_def quiet_def texts pab_blocks_def pab_blocks_sdk_def)

lemma checkBucket_quiet:
  "checkBucket (everywhere quiet) c i b = all_verdicts b ''OK''"
  "checkBucket_sdk (everywhere quiet) c i b = Return (all_verdicts b ''OK'')"
  by (simp_all add: checkBucket_eq checkBucket_sdk_eq all_verdicts_def verdict_eqs Let_def
      everywhere_def quiet_def texts pab_blocks_def pab_blocks_sdk_def)

lemma robust_example:
  "sunk (snd (CheckBucketsStream first_down NewChecker [''b1'', ''b2'', ''b3'']))
     = [all_verdicts ''b1'' ''DENIED'', all_verdicts ''b2'' ''OK'', all_verdicts ''b3'' ''OK'']"
  "CheckBucketsStream_sdk first_down NewChecker [''b1'', ''b2'', ''b3'']
     = (Return None,
        [Probe ''b1'', Sink (all_verdicts ''b1'' ''DENIED''),
         Probe ''b2'', Sink (all_verdicts ''b2'' ''OK''),
         Probe ''b3'', Sink (all_verdicts ''b3'' ''OK'')])"
  by (simp_all add: CheckBucketsStream_def CheckBucketsStream_sdk_def TrimSpace_examples Let_def
      checkBucket_down checkBucket_up)

section \<open>The claims\<close>

text \<open>
  C1. Every result the driver hands to the callback is complete: each of its eight
  fields GetACL, PutACL, AnonGet, AuthGet, AnonWrite, AuthWrite, AnonDel and AuthDel
  holds \<^verbatim>\<open>OK\<close> or \<^verbatim>\<open>DENIED\<close>, so none is left at the empty string a new
  result starts with and none holds a third value. This holds of the driver that runs
  the eight checks as goroutines, in whatever order their results arrive, and of the
  driver that runs them one after the other, for every input and every world.
\<close>

theorem every_result_is_complete:
  "list_all complete (sunk (snd (CheckBucketsStream e c bucketNames))) \<and>
   list_all complete (sunk (snd (CheckBucketsStream_sdk e c bucketNames))) \<and>
   list_all all_set (sunk (snd (CheckBucketsStream e c bucketNames))) \<and>
   list_all all_set (sunk (snd (CheckBucketsStream_sdk e c bucketNames)))"
proof -
  have "v \<noteq> []" if "verdict v" for v
    using that by (auto simp add: verdict_def)
  then have set: "all_set r" if "complete r" for r
    using that by (simp add: complete_def all_set_def)
  have par: "list_all complete (sunk (snd (CheckBucketsStream e c bucketNames)))"
    by (simp add: CheckBucketsStream_def sunk_stream list_all_iff complete_checkBucket split_beta)
  have seq: "list_all complete (sunk (snd (CheckBucketsStream_sdk e c bucketNames)))"
    by (simp add: CheckBucketsStream_sdk_def complete_stream_sdk)
  from par seq set show ?thesis
    by (auto simp add: list_all_iff)
qed

theorem every_result_is_complete_witness:
  "list_all complete (sunk (snd (CheckBucketsStream first_down NewChecker [''b1'', ''b2'', ''b3'']))) \<and>
   list_all all_set (sunk (snd (CheckBucketsStream_sdk first_down NewChecker [''b1'', ''b2'', ''b3'']))) \<and>
   sunk (snd (CheckBucketsStream first_down NewChecker [''b1'', ''b2'', ''b3'']))
     = [all_verdicts ''b1'' ''DENIED'', all_verdicts ''b2'' ''OK'', all_verdicts ''b3'' ''OK'']"
  using every_result_is_complete [of first_down NewChecker "[''b1'', ''b2'', ''b3'']"] robust_example(1)
  by blast



text \<open>
  C3. In both GET checks a not-found response to the read of the probed object is to
  yield \<^verbatim>\<open>OK\<close> and an authorization-denied response \<^verbatim>\<open>DENIED\<close>; the source
  says so itself, \<^verbatim>\<open>404/NoSuchKey = access allowed, 403 = denied\<close>. The checks do
  so on the plain responses. But they tell the two apart by searching the whole
  combined output of the command, and search it for \<^verbatim>\<open>NoSuchKey\<close> and \<^verbatim>\<open>404\<close>
  first: a read that was refused with 403 Forbidden is answered \<^verbatim>\<open>OK\<close> when the
  digits 404 stand anywhere else in the output, here in a warning the tool printed
  before its error message. The branch for 403 is in the code and is not reached.
\<close>

theorem denied_response_read_as_not_found:
  "aws (failing_at 1 refused_404) 1 (s3api ''head-object'' ''b'' [''--key'', ''test-0''])
     = (True, refused_404) \<and>
   denied_text refused_404 \<and>
   outcome (checkAuthGet (failing_at 1 refused_404) NewChecker ''b'') =
     (''OK'', [Now, ExecOutput (s3api ''head-object'' ''b'' [''--key'', ''test-0''])]) \<and>
   outcome (checkAnonGet (failing_at 2 refused_404) NewChecker ''b'') =
     (''OK'', [Now, ExecOutput (s3api ''get-public-access-block'' ''b'' []),
              ExecOutput (s3api ''head-object'' ''b'' [''--key'', ''test-0'', ''--no-sign-request''])]) \<and>
   outcome (checkAnonGet_sdk (failing_at 2 refused_404) NewChecker ''b'') =
     (Return ''OK'', [Now, GetPublicAccessBlock ''b'',
              ExecOutput (s3api ''head-object'' ''b'' [''--key'', ''test-0'', ''--no-sign-request''])]) \<and>
   fst (checkAuthGet (failing_at 1 forbidden_403) NewChecker ''b'') = ''DENIED'' \<and>
   fst (checkAnonGet (failing_at 2 forbidden_403) NewChecker ''b'') = ''DENIED'' \<and>
   fst (checkAnonGet_sdk (failing_at 2 forbidden_403) NewChecker ''b'') = Return ''DENIED'' \<and>
   fst (checkAuthGet (failing_at 1 not_found_404) NewChecker ''b'') = ''OK'' \<and>
   fst (checkAnonGet (failing_at 2 not_found_404) NewChecker ''b'') = ''OK'' \<and>
   fst (checkAnonGet_sdk (failing_at 2 not_found_404) NewChecker ''b'') = Return ''OK''"
  by (simp add: AuthGet_run AnonGet_run AnonGet_sdk_run verdict_eqs Let_def texts failing_at_def
      quiet_def pab_blocks_def pab_blocks_sdk_def testKey_def FormatInt_0)

text \<open>
  C4. When the anonymous object read of \<open>checkAnonGet\<close> fails with a text that
  carries neither a not-found nor an authorization-denied signal, the check is to
  fetch the bucket policy as the caller and answer \<^verbatim>\<open>OK\<close> when the policy text
  contains a wildcard principal grant together with a get-object action pattern,
  \<^verbatim>\<open>DENIED\<close> otherwise and when the fetch fails. The checker that runs the
  command line tool does not: its source means to \<^verbatim>\<open>extract Policy field\<close> from
  the JSON output of \<^verbatim>\<open>get-bucket-policy\<close> and searches the output as it is, in
  which the policy text stands as a JSON string with every quote behind a backslash,
  so that the patterns for the wildcard principal, which hold a quote right after the
  word \<^verbatim>\<open>Principal\<close>, are not found. Whatever the policy of the bucket, it
  answers \<^verbatim>\<open>DENIED\<close> on what the tool prints; on a policy that grants everyone
  \<^verbatim>\<open>s3:GetObject\<close> the checker with the SDK client, which is given the policy
  text, answers \<^verbatim>\<open>OK\<close>. That checker in turn does not answer \<^verbatim>\<open>DENIED\<close>
  when the client returns no error and no policy text: it reads through the nil
  pointer and panics.
\<close>

theorem policy_fallback_misses_printed_policy:
  "aws (bucket_with_policy policyText) 2
       (s3api ''head-object'' b [''--key'', ''test-0'', ''--no-sign-request''])
     = (True, timed_out) \<and>
   \<not> not_found_text timed_out \<and> \<not> denied_text timed_out \<and>
   aws (bucket_with_policy policyText) 3 (s3api ''get-bucket-policy'' b [])
     = (False, printed_policy policyText) \<and>
   outcome (checkAnonGet (bucket_with_policy policyText) c b) =
     (''DENIED'', [Now, ExecOutput (s3api ''get-public-access-block'' b []),
                  ExecOutput (s3api ''head-object'' b [''--key'', ''test-0'', ''--no-sign-request'']),
                  ExecOutput (s3api ''get-bucket-policy'' b [])]) \<and>
   sdkGetBucketPolicy (bucket_with_policy policyText) 3 b = Output (Some policyText) \<and>
   outcome (checkAnonGet_sdk (bucket_with_policy policyText) c b) =
     (Return (if grants_public_read policyText then ''OK'' else ''DENIED''),
      [Now, GetPublicAccessBlock b,
       ExecOutput (s3api ''head-object'' b [''--key'', ''test-0'', ''--no-sign-request'']),
       GetBucketPolicy b]) \<and>
   grants_public_read public_read_policy \<and>
   fst (checkAnonGet (bucket_with_policy public_read_policy) NewChecker ''b'') = ''DENIED'' \<and>
   fst (checkAnonGet_sdk (bucket_with_policy public_read_policy) NewChecker ''b'') = Return ''OK'' \<and>
   sdkGetBucketPolicy nil_policy 3 ''b'' = Output None \<and>
   outcome (checkAnonGet_sdk nil_policy NewChecker ''b'') =
     (Panic nil_dereference,
      [Now, GetPublicAccessBlock ''b'',
       ExecOutput (s3api ''head-object'' ''b'' [''--key'', ''test-0'', ''--no-sign-request'']),
       GetBucketPolicy ''b''])"
proof -
  have cli: "outcome (checkAnonGet (bucket_with_policy p) c' b') =
     (''DENIED'', [Now, ExecOutput (s3api ''get-public-access-block'' b' []),
                  ExecOutput (s3api ''head-object'' b' [''--key'', ''test-0'', ''--no-sign-request'']),
                  ExecOutput (s3api ''get-bucket-policy'' b' [])])" for p c' b'
    by (simp add: AnonGet_run Let_def texts printed_policy_unread bucket_with_policy_def quiet_def
        pab_blocks_def testKey_def FormatInt_0)
  have sdk: "outcome (checkAnonGet_sdk (bucket_with_policy p) c' b') =
     (Return (if grants_public_read p then ''OK'' else ''DENIED''),
      [Now, GetPublicAccessBlock b',
       ExecOutput (s3api ''head-object'' b' [''--key'', ''test-0'', ''--no-sign-request'']),
       GetBucketPolicy b'])" for p c' b'
    by (simp add: AnonGet_sdk_run Let_def texts permissive_policy_grants bucket_with_policy_def
        quiet_def pab_blocks_sdk_def testKey_def FormatInt_0)
  have world:
    "aws (bucket_with_policy policyText) 2
         (s3api ''head-object'' b [''--key'', ''test-0'', ''--no-sign-request''])
       = (True, timed_out)"
    "aws (bucket_with_policy policyText) 3 (s3api ''get-bucket-policy'' b [])
       = (False, printed_policy policyText)"
    "sdkGetBucketPolicy (bucket_with_policy policyText) 3 b = Output (Some policyText)"
    "sdkGetBucketPolicy nil_policy 3 ''b'' = Output None"
    by (simp_all add: bucket_with_policy_def nil_policy_def failing_at_def quiet_def)
  have nil: "outcome (checkAnonGet_sdk nil_policy NewChecker ''b'') =
     (Panic nil_dereference,
      [Now, GetPublicAccessBlock ''b'',
       ExecOutput (s3api ''head-object'' ''b'' [''--key'', ''test-0'', ''--no-sign-request'']),
       GetBucketPolicy ''b''])"
    by (simp add: AnonGet_sdk_run Let_def texts nil_policy_def failing_at_def quiet_def
        pab_blocks_sdk_def testKey_def FormatInt_0)
  from cli[of policyText c b] sdk[of policyText c b]
    cli[of public_read_policy NewChecker "''b''", THEN fst_run]
    sdk[of public_read_policy NewChecker "''b''", THEN fst_run]
    world nil texts(7,8) public_read_policy_grants
  show ?thesis
    by simp
qed

text \<open>
  C5. For every input the callback is called once for each identifier that is not empty
  after \<^verbatim>\<open>strings.TrimSpace\<close>, in the order of the input, and for no other: the
  names of the results handed over are the trimmed identifiers that are not empty. On
  the input of two spaces, \<^verbatim>\<open>bucket-a\<close> and the empty string the callback
  receives one result, for \<^verbatim>\<open>bucket-a\<close>. This holds of the driver with
  goroutines, \<^verbatim>\<open>CheckBucketsStream\<close> of \<^verbatim>\<open>src/CHECKS.md\<close>, for every input and
  every world. The driver that runs the checks one after the other does the same
  whenever it returns; when a check panics it has handed over the results of the
  identifiers before that one, a prefix of the same list.
\<close>

theorem one_result_per_identifier:
  "map BucketName (sunk (snd (CheckBucketsStream e c bucketNames)))
     = filter (\<lambda>b. b \<noteq> []) (map TrimSpace bucketNames) \<and>
   map BucketName (sunk (snd (CheckBucketsStream e c [''  '', ''bucket-a'', '''']))) = [''bucket-a''] \<and>
   prefix (map BucketName (sunk (snd (CheckBucketsStream_sdk e c bucketNames))))
     (filter (\<lambda>b. b \<noteq> []) (map TrimSpace bucketNames)) \<and>
   (fst (CheckBucketsStream_sdk e c bucketNames) = Return None \<longrightarrow>
      map BucketName (sunk (snd (CheckBucketsStream_sdk e c bucketNames)))
        = filter (\<lambda>b. b \<noteq> []) (map TrimSpace bucketNames))"
proof -
  have par: "map BucketName (sunk (snd (CheckBucketsStream e c bs)))
      = filter (\<lambda>b. b \<noteq> []) (map TrimSpace bs)" for bs
    by (simp add: CheckBucketsStream_def sunk_names)
  have example: "filter (\<lambda>b. b \<noteq> []) (map TrimSpace [''  '', ''bucket-a'', '''']) = [''bucket-a'']"
    by (simp add: TrimSpace_bucket_a TrimSpace_blank TrimSpace_empty)
  have seq: "prefix (map BucketName (sunk (snd (CheckBucketsStream_sdk e c bucketNames))))
      (filter (\<lambda>b. b \<noteq> []) (map TrimSpace bucketNames))"
    by (simp add: CheckBucketsStream_sdk_def sunk_names_sdk_prefix)
  have returned: "fst (CheckBucketsStream_sdk e c bucketNames) = Return None \<longrightarrow>
      map BucketName (sunk (snd (CheckBucketsStream_sdk e c bucketNames)))
        = filter (\<lambda>b. b \<noteq> []) (map TrimSpace bucketNames)"
    by (simp add: CheckBucketsStream_sdk_def sunk_names_sdk)
  from seq returned show ?thesis
    by (simp only: par example simp_thms)
qed

theorem one_result_per_identifier_witness:
  "map BucketName (sunk (snd (CheckBucketsStream (everywhere quiet) NewChecker [''  '', ''bucket-a'', ''''])))
     = [''bucket-a''] \<and>
   fst (CheckBucketsStream_sdk (everywhere quiet) NewChecker [''  '', ''bucket-a'', '''']) = Return None \<and>
   map BucketName (sunk (snd (CheckBucketsStream_sdk (everywhere quiet) NewChecker [''  '', ''bucket-a'', ''''])))
     = [''bucket-a'']"
proof -
  have returned:
    "fst (CheckBucketsStream_sdk (everywhere quiet) NewChecker [''  '', ''bucket-a'', '''']) = Return None"
    by (simp add: CheckBucketsStream_sdk_def TrimSpace_bucket_a TrimSpace_blank TrimSpace_empty
        Let_def checkBucket_quiet)
  have example: "filter (\<lambda>b. b \<noteq> []) (map TrimSpace [''  '', ''bucket-a'', '''']) = [''bucket-a'']"
    by (simp add: TrimSpace_bucket_a TrimSpace_blank TrimSpace_empty)
  from one_result_per_identifier [of "everywhere quiet" NewChecker "[''  '', ''bucket-a'', '''']"]
    returned example
  show ?thesis
    by simp
qed

text \<open>
  C6. In \<open>checkAnonDel\<close>, once the public access block has let the check go on and
  the temporary file is written: if the authenticated creation of the test object
  fails, the check returns \<^verbatim>\<open>DENIED\<close> and its run ends there, with no delete
  attempted; if the creation succeeds and the anonymous delete fails, the check runs
  the authenticated delete of the same key, whose error it drops, and then returns
  \<^verbatim>\<open>DENIED\<close>. Both checkers.
\<close>

theorem anon_del_creation_and_cleanup:
  "(let key = testKey ''test-anon-del-'' w 1;
        tmp = tmpFile b w 2;
        put = s3api ''put-object'' b [''--key'', key, ''--body'', tmp];
        del = s3api ''delete-object'' b [''--key'', key, ''--no-sign-request''];
        cleanup = s3api ''delete-object'' b [''--key'', key]
    in writeFile w 3 tmp ''test'' = None \<longrightarrow>
       (\<not> pab_blocks w 0 b \<and> fst (aws w 4 put) \<longrightarrow>
          outcome (checkAnonDel w c b) =
            (''DENIED'', [ExecOutput (s3api ''get-public-access-block'' b []), Now, Now,
                         WriteFile tmp ''test'', ExecOutput put, Remove tmp])) \<and>
       (\<not> pab_blocks w 0 b \<and> \<not> fst (aws w 4 put) \<and> fst (aws w 5 del) \<longrightarrow>
          outcome (checkAnonDel w c b) =
            (''DENIED'', [ExecOutput (s3api ''get-public-access-block'' b []), Now, Now,
                         WriteFile tmp ''test'', ExecOutput put, ExecOutput del, ExecRun cleanup,
                         Remove tmp])) \<and>
       (\<not> pab_blocks_sdk w 0 b \<and> fst (aws w 4 put) \<longrightarrow>
          outcome (checkAnonDel_sdk w c b) =
            (''DENIED'', [GetPublicAccessBlock b, Now, Now, WriteFile tmp ''test'', ExecOutput put,
                         Remove tmp])) \<and>
       (\<not> pab_blocks_sdk w 0 b \<and> \<not> fst (aws w 4 put) \<and> fst (aws w 5 del) \<longrightarrow>
          outcome (checkAnonDel_sdk w c b) =
            (''DENIED'', [GetPublicAccessBlock b, Now, Now, WriteFile tmp ''test'', ExecOutput put,
                         ExecOutput del, ExecRun cleanup, Remove tmp])))"
  by (simp add: AnonDel_run AnonDel_sdk_run Let_def)

theorem anon_del_creation_and_cleanup_witness:
  "outcome (checkAnonDel (failing_at 4 forbidden_403) NewChecker ''b'') =
     (''DENIED'', [ExecOutput (s3api ''get-public-access-block'' ''b'' []), Now, Now,
                  WriteFile ''/tmp/test-b-0'' ''test'',
                  ExecOutput (s3api ''put-object'' ''b''
                               [''--key'', ''test-anon-del-0'', ''--body'', ''/tmp/test-b-0'']),
                  Remove ''/tmp/test-b-0'']) \<and>
   outcome (checkAnonDel (failing_at 5 forbidden_403) NewChecker ''b'') =
     (''DENIED'', [ExecOutput (s3api ''get-public-access-block'' ''b'' []), Now, Now,
                  WriteFile ''/tmp/test-b-0'' ''test'',
                  ExecOutput (s3api ''put-object'' ''b''
                               [''--key'', ''test-anon-del-0'', ''--body'', ''/tmp/test-b-0'']),
                  ExecOutput (s3api ''delete-object'' ''b''
                               [''--key'', ''test-anon-del-0'', ''--no-sign-request'']),
                  ExecRun (s3api ''delete-object'' ''b'' [''--key'', ''test-anon-del-0'']),
                  Remove ''/tmp/test-b-0'']) \<and>
   outcome (checkAnonDel_sdk (failing_at 4 forbidden_403) NewChecker ''b'') =
     (''DENIED'', [GetPublicAccessBlock ''b'', Now, Now,
                  WriteFile ''/tmp/test-b-0'' ''test'',
                  ExecOutput (s3api ''put-object'' ''b''
                               [''--key'', ''test-anon-del-0'', ''--body'', ''/tmp/test-b-0'']),
                  Remove ''/tmp/test-b-0'']) \<and>
   outcome (checkAnonDel_sdk (failing_at 5 forbidden_403) NewChecker ''b'') =
     (''DENIED'', [GetPublicAccessBlock ''b'', Now, Now,
                  WriteFile ''/tmp/test-b-0'' ''test'',
                  ExecOutput (s3api ''put-object'' ''b''
                               [''--key'', ''test-anon-del-0'', ''--body'', ''/tmp/test-b-0'']),
                  ExecOutput (s3api ''delete-object'' ''b''
                               [''--key'', ''test-anon-del-0'', ''--no-sign-request'']),
                  ExecRun (s3api ''delete-object'' ''b'' [''--key'', ''test-anon-del-0'']),
                  Remove ''/tmp/test-b-0''])"
  using anon_del_creation_and_cleanup [where b = "''b''" and w = "failing_at 4 forbidden_403" and c = NewChecker]
    anon_del_creation_and_cleanup [where b = "''b''" and w = "failing_at 5 forbidden_403" and c = NewChecker]
  by (simp add: Let_def failing_at_def quiet_def texts pab_blocks_def pab_blocks_sdk_def
      testKey_def tmpFile_def FormatInt_0)

text \<open>
  C7. The driver is never to return an error, nor to stop, because of what the checks
  of a bucket find: whatever fails, the failure ends in a verdict, the buckets after
  it are still processed and reported, and the driver returns nil. The driver with
  goroutines does so for every input and every world. The driver that runs the checks
  one after the other does not. When the anonymous read of a bucket fails with neither
  signal and the SDK client answers the request for the policy with no error and no
  policy text, \<open>checkAnonGet\<close> reads through the nil pointer; nothing recovers from
  the panic, so that the callback is called neither for that bucket nor for any after
  it, and the driver does not return. It ends in no other way: it returns nil or it
  panics on that nil pointer.
\<close>

theorem nil_policy_ends_the_sequential_driver:
  "CheckBucketsStream_sdk (everywhere nil_policy) NewChecker [''b1'', ''b2'', ''b3'']
     = (Panic nil_dereference, [Probe ''b1'']) \<and>
   fst (checkAnonGet_sdk nil_policy NewChecker ''b1'') = Panic nil_dereference \<and>
   fst (CheckBucketsStream (everywhere nil_policy) NewChecker [''b1'', ''b2'', ''b3'']) = None \<and>
   map BucketName (sunk (snd (CheckBucketsStream (everywhere nil_policy) NewChecker [''b1'', ''b2'', ''b3''])))
     = [''b1'', ''b2'', ''b3''] \<and>
   map AnonGet (sunk (snd (CheckBucketsStream (everywhere nil_policy) NewChecker [''b1'', ''b2'', ''b3''])))
     = [''DENIED'', ''DENIED'', ''DENIED''] \<and>
   fst (CheckBucketsStream e c bucketNames) = None \<and>
   (fst (CheckBucketsStream_sdk e c bucketNames) = Return None \<or>
    fst (CheckBucketsStream_sdk e c bucketNames) = Panic nil_dereference)"
proof -
  have panic: "fst (checkAnonGet_sdk nil_policy NewChecker b) = Panic nil_dereference" for b
    by (simp add: verdict_eqs Let_def nil_policy_def failing_at_def quiet_def texts
        pab_blocks_sdk_def)
  have seq: "CheckBucketsStream_sdk (everywhere nil_policy) NewChecker [''b1'', ''b2'', ''b3'']
      = (Panic nil_dereference, [Probe ''b1''])"
    by (simp add: CheckBucketsStream_sdk_def TrimSpace_examples Let_def checkBucket_sdk_eq
        everywhere_def panic)
  have denied: "fst (checkAnonGet nil_policy NewChecker b) = ''DENIED''" for b
    by (simp add: verdict_eqs Let_def nil_policy_def failing_at_def quiet_def texts pab_blocks_def)
  have par: "map BucketName (sunk (snd (CheckBucketsStream (everywhere nil_policy) NewChecker [''b1'', ''b2'', ''b3''])))
      = [''b1'', ''b2'', ''b3'']"
    "map AnonGet (sunk (snd (CheckBucketsStream (everywhere nil_policy) NewChecker [''b1'', ''b2'', ''b3''])))
      = [''DENIED'', ''DENIED'', ''DENIED'']"
    by (simp_all add: CheckBucketsStream_def TrimSpace_examples Let_def checkBucket_eq
        everywhere_def denied)
  have nil: "fst (CheckBucketsStream e c bs) = None" for e c bs
    by (simp add: CheckBucketsStream_def)
  have ends: "fst (CheckBucketsStream_sdk e c bucketNames) = Return None \<or>
      fst (CheckBucketsStream_sdk e c bucketNames) = Panic nil_dereference"
    by (simp add: CheckBucketsStream_sdk_def stream_sdk_ends)
  from panic seq par nil ends show ?thesis
    by simp
qed

text \<open>
  C8. After it has handed a result to the callback, and except after the last bucket of
  the input, the driver is to pause for a fixed delay before it begins the next bucket.
  The driver that runs the checks one after the other does not: it never sleeps, and
  on two buckets it begins the second right after it has handed over the result of the
  first. Its file declares the delay, \<^verbatim>\<open>bucketCheckDelay\<close> with the comment
  \<^verbatim>\<open>Delay between bucket checks to avoid rate limiting\<close>, and uses it nowhere. The
  driver with goroutines pauses as the claim says (\<open>goroutine_driver_pauses\<close>).
\<close>

theorem sequential_driver_never_pauses:
  "\<not> list_ex is_Sleep (snd (CheckBucketsStream_sdk e c bucketNames)) \<and>
   snd (CheckBucketsStream_sdk e c [''b1'', ''b2'']) =
     (case checkBucket_sdk e c 0 ''b1'' of
        Panic msg \<Rightarrow> [Probe ''b1'']
      | Return r1 \<Rightarrow>
          [Probe ''b1'', Sink r1, Probe ''b2'']
          @ (case checkBucket_sdk e c 1 ''b2'' of Panic msg \<Rightarrow> [] | Return r2 \<Rightarrow> [Sink r2])) \<and>
   CheckBucketsStream_sdk (everywhere quiet) c [''b1'', ''b2''] =
     (Return None,
      [Probe ''b1'', Sink (all_verdicts ''b1'' ''OK''),
       Probe ''b2'', Sink (all_verdicts ''b2'' ''OK'')]) \<and>
   snd (CheckBucketsStream e c [''b1'', ''b2'']) =
     [Probe ''b1'', Sink (checkBucket e c 0 ''b1''), Sleep bucketCheckDelay,
      Probe ''b2'', Sink (checkBucket e c 1 ''b2'')]"
proof -
  have never: "\<not> list_ex is_Sleep (snd (CheckBucketsStream_sdk e c bucketNames))"
    by (simp add: CheckBucketsStream_sdk_def stream_sdk_no_sleep)
  have two: "snd (CheckBucketsStream_sdk e c [''b1'', ''b2'']) =
     (case checkBucket_sdk e c 0 ''b1'' of
        Panic msg \<Rightarrow> [Probe ''b1'']
      | Return r1 \<Rightarrow>
          [Probe ''b1'', Sink r1, Probe ''b2'']
          @ (case checkBucket_sdk e c 1 ''b2'' of Panic msg \<Rightarrow> [] | Return r2 \<Rightarrow> [Sink r2]))"
    by (simp add: CheckBucketsStream_sdk_def TrimSpace_examples Let_def split: result.splits)
  have quiet: "CheckBucketsStream_sdk (everywhere quiet) c [''b1'', ''b2''] =
     (Return None,
      [Probe ''b1'', Sink (all_verdicts ''b1'' ''OK''),
       Probe ''b2'', Sink (all_verdicts ''b2'' ''OK'')])"
    by (simp add: CheckBucketsStream_sdk_def TrimSpace_examples Let_def checkBucket_quiet)
  have par: "snd (CheckBucketsStream e c [''b1'', ''b2'']) =
     [Probe ''b1'', Sink (checkBucket e c 0 ''b1''), Sleep bucketCheckDelay,
      Probe ''b2'', Sink (checkBucket e c 1 ''b2'')]"
    by (simp add: CheckBucketsStream_def TrimSpace_examples Let_def bucketCheckDelay_def)
  from never two quiet par show ?thesis
    by (simp only: simp_thms)
qed

text \<open>
  C9. The verbose flag changes no verdict: in every world each of the eight checks, in
  both checkers, returns the same verdict and makes the same calls with
  \<open>SetVerbose c True\<close> as with \<open>SetVerbose c False\<close>, and with the flag off it
  writes nothing to standard error; so the results both drivers hand over are the
  same with the flag on and off.
\<close>

theorem verbose_changes_no_verdict:
  "same_outcome (\<lambda>c. checkGetACLWithContext w c b) c \<and>
   same_outcome (\<lambda>c. checkPutACLWithContext w c b) c \<and>
   same_outcome (\<lambda>c. checkAnonGet w c b) c \<and>
   same_outcome (\<lambda>c. checkAuthGet w c b) c \<and>
   same_outcome (\<lambda>c. checkAnonWrite w c b) c \<and>
   same_outcome (\<lambda>c. checkAuthWrite w c b) c \<and>
   same_outcome (\<lambda>c. checkAnonDel w c b) c \<and>
   same_outcome (\<lambda>c. checkAuthDel w c b) c \<and>
   same_outcome (\<lambda>c. checkAnonGet_sdk w c b) c \<and>
   same_outcome (\<lambda>c. checkAnonWrite_sdk w c b) c \<and>
   same_outcome (\<lambda>c. checkAnonDel_sdk w c b) c \<and>
   sunk (snd (CheckBucketsStream e (SetVerbose c True) bucketNames))
     = sunk (snd (CheckBucketsStream e (SetVerbose c False) bucketNames)) \<and>
   sunk (snd (CheckBucketsStream_sdk e (SetVerbose c True) bucketNames))
     = sunk (snd (CheckBucketsStream_sdk e (SetVerbose c False) bucketNames))"
proof -
  have off: "\<not> verbose (SetVerbose c False)"
    by (simp add: SetVerbose_def)
  have checks:
    "same_outcome (\<lambda>c. checkGetACLWithContext w c b) c"
    "same_outcome (\<lambda>c. checkPutACLWithContext w c b) c"
    "same_outcome (\<lambda>c. checkAnonGet w c b) c"
    "same_outcome (\<lambda>c. checkAuthGet w c b) c"
    "same_outcome (\<lambda>c. checkAnonWrite w c b) c"
    "same_outcome (\<lambda>c. checkAuthWrite w c b) c"
    "same_outcome (\<lambda>c. checkAnonDel w c b) c"
    "same_outcome (\<lambda>c. checkAuthDel w c b) c"
    "same_outcome (\<lambda>c. checkAnonGet_sdk w c b) c"
    "same_outcome (\<lambda>c. checkAnonWrite_sdk w c b) c"
    "same_outcome (\<lambda>c. checkAnonDel_sdk w c b) c"
    unfolding same_outcome_def
    using run_independent [of w "SetVerbose c True" b "SetVerbose c False"] silent [OF off, of w b]
    by simp_all
  have par: "sunk (snd (CheckBucketsStream e (SetVerbose c True) bucketNames))
     = sunk (snd (CheckBucketsStream e (SetVerbose c False) bucketNames))"
    by (simp add: CheckBucketsStream_def sunk_stream
        checkBucket_independent(1)[of e "SetVerbose c True" _ _ "SetVerbose c False"])
  have seq: "sunk (snd (CheckBucketsStream_sdk e (SetVerbose c True) bucketNames))
     = sunk (snd (CheckBucketsStream_sdk e (SetVerbose c False) bucketNames))"
    by (simp add: CheckBucketsStream_sdk_def
        stream_sdk_independent[of e "SetVerbose c True" _ _ "SetVerbose c False"])
  from checks par seq show ?thesis
    by blast
qed

theorem verbose_changes_no_verdict_witness:
  "same_outcome (\<lambda>c. checkAuthGet (failing_at 1 forbidden_403) c ''b'') NewChecker \<and>
   stderr (snd (checkAuthGet (failing_at 1 forbidden_403) (SetVerbose NewChecker True) ''b''))
     = [''[AUTH-GET] b: '' @ forbidden_403 @ newline] \<and>
   stderr (snd (checkAuthGet (failing_at 1 forbidden_403) (SetVerbose NewChecker False) ''b'')) = [] \<and>
   fst (checkAuthGet (failing_at 1 forbidden_403) (SetVerbose NewChecker True) ''b'') = ''DENIED'' \<and>
   fst (checkAuthGet (failing_at 1 forbidden_403) (SetVerbose NewChecker False) ''b'') = ''DENIED''"
proof -
  have loud: "stderr (snd (checkAuthGet (failing_at 1 forbidden_403) (SetVerbose NewChecker True) ''b''))
     = [''[AUTH-GET] b: '' @ forbidden_403 @ newline]"
    by (simp add: checkAuthGet_def prims Let_def SetVerbose_def NewChecker_def failing_at_def
        quiet_def texts)
  have v: "fst (checkAuthGet (failing_at 1 forbidden_403) c ''b'') = ''DENIED''" for c
    by (simp add: verdict_eqs Let_def failing_at_def quiet_def texts)
  from verbose_changes_no_verdict [of "failing_at 1 forbidden_403" "''b''" NewChecker]
  have s: "same_outcome (\<lambda>c. checkAuthGet (failing_at 1 forbidden_403) c ''b'') NewChecker"
    by blast
  then have "stderr (snd (checkAuthGet (failing_at 1 forbidden_403) (SetVerbose NewChecker False) ''b'')) = []"
    by (simp add: same_outcome_def)
  with s loud v show ?thesis
    by blast
qed

text \<open>
  C10, as amended. In the four checks without a not-found case (GetAcl, PutAcl,
  AuthWrite and AuthDel) the test of the error text for \<^verbatim>\<open>AccessDenied\<close>,
  \<^verbatim>\<open>403\<close> and \<^verbatim>\<open>Forbidden\<close> changes nothing: each check returns the verdict
  and makes the calls of the simpler function that takes the steps of the check in
  order and never reads an error text. That function answers \<^verbatim>\<open>OK\<close> if and only
  if the temporary file of the check, where it has one, was written and every command
  of the check succeeded but the delete with which AuthWrite cleans up after a
  successful write; it answers \<^verbatim>\<open>DENIED\<close> otherwise. For GetAcl, which has
  neither a temporary file nor a cleanup, this is the claim as it stands. The claim as
  it stands fails for the others, as the counterexample after the witness shows: the
  error of the cleanup is dropped, and a temporary file that cannot be written ends
  the check with \<^verbatim>\<open>DENIED\<close> before any command of it has failed.
\<close>

theorem text_test_is_redundant:
  "outcome (checkGetACLWithContext w c b) = simple w 0 (GetAcl_steps w b) \<and>
   outcome (checkPutACLWithContext w c b) = simple w 0 (PutAcl_steps w b) \<and>
   outcome (checkAuthWrite w c b) = simple w 0 (AuthWrite_steps w b) \<and>
   outcome (checkAuthDel w c b) = simple w 0 (AuthDel_steps w b) \<and>
   fst (simple w k steps) = (if counted_steps_succeed w k steps then ''OK'' else ''DENIED'') \<and>
   fst (checkGetACLWithContext w c b) = claimed w (GetAcl_steps w b)"
proof -
  have checks:
    "outcome (checkGetACLWithContext w c b) = simple w 0 (GetAcl_steps w b)"
    "outcome (checkPutACLWithContext w c b) = simple w 0 (PutAcl_steps w b)"
    "outcome (checkAuthWrite w c b) = simple w 0 (AuthWrite_steps w b)"
    "outcome (checkAuthDel w c b) = simple w 0 (AuthDel_steps w b)"
    by (simp_all add: GetACL_run PutACL_run AuthWrite_run AuthDel_run GetAcl_steps_def
        PutAcl_steps_def AuthWrite_steps_def AuthDel_steps_def aclFile_def Let_def
        eval_nat_numeral)
  have iff: "fst (simple w k steps) = (if counted_steps_succeed w k steps then ''OK'' else ''DENIED'')"
    by (induction w k steps rule: simple.induct) (simp_all add: Let_def)
  have acl: "fst (checkGetACLWithContext w c b) = claimed w (GetAcl_steps w b)"
    by (simp add: verdict_eqs claimed_def GetAcl_steps_def)
  from checks iff acl show ?thesis
    by (simp only: simp_thms)
qed

theorem text_test_is_redundant_witness:
  "outcome (checkGetACLWithContext (failing_at 0 timed_out) NewChecker ''b'') =
     (''DENIED'', [ExecOutput (s3api ''get-bucket-acl'' ''b'' [])]) \<and>
   outcome (checkAuthWrite (failing_at 3 timed_out) NewChecker ''b'') =
     (''DENIED'',
      [Now, Now, WriteFile ''/tmp/test-b-0'' ''test'',
       ExecOutput (s3api ''put-object'' ''b'' [''--key'', ''test-auth-write-0'', ''--body'', ''/tmp/test-b-0'']),
       Remove ''/tmp/test-b-0'']) \<and>
   outcome (checkAuthDel quiet NewChecker ''b'') =
     (''OK'',
      [Now, Now, WriteFile ''/tmp/test-b-0'' ''test'',
       ExecOutput (s3api ''put-object'' ''b'' [''--key'', ''test-auth-del-0'', ''--body'', ''/tmp/test-b-0'']),
       ExecOutput (s3api ''delete-object'' ''b'' [''--key'', ''test-auth-del-0'']),
       Remove ''/tmp/test-b-0''])"
  using text_test_is_redundant [of "failing_at 0 timed_out" NewChecker "''b''" 0 "[]"]
    text_test_is_redundant [of "failing_at 3 timed_out" NewChecker "''b''" 0 "[]"]
    text_test_is_redundant [of quiet NewChecker "''b''" 0 "[]"]
  by (simp add: GetAcl_steps_def AuthWrite_steps_def AuthDel_steps_def Let_def failing_at_def
      quiet_def testKey_def tmpFile_def FormatInt_0)

text \<open>
  The write of \<open>checkAuthWrite\<close> succeeds and the delete that cleans up after it,
  call 4 of the check, fails: the check answers \<^verbatim>\<open>OK\<close>, though not every command
  of it succeeded. And on a bucket name that makes the path of the temporary file
  unwritable the checks answer \<^verbatim>\<open>DENIED\<close> in a world where every command
  succeeds: AuthWrite and AuthDel have run no command when they stop, PutAcl only the
  fetch of the ACL, which succeeded.
\<close>

theorem not_the_commands_alone:
  "outcome (checkAuthWrite (failing_at 4 forbidden_403) NewChecker ''b'') =
     (''OK'',
      [Now, Now, WriteFile ''/tmp/test-b-0'' ''test'',
       ExecOutput (s3api ''put-object'' ''b'' [''--key'', ''test-auth-write-0'', ''--body'', ''/tmp/test-b-0'']),
       ExecRun (s3api ''delete-object'' ''b'' [''--key'', ''test-auth-write-0'']),
       Remove ''/tmp/test-b-0'']) \<and>
   aws (failing_at 4 forbidden_403) 4 (s3api ''delete-object'' ''b'' [''--key'', ''test-auth-write-0''])
     = (True, forbidden_403) \<and>
   claimed (failing_at 4 forbidden_403) (AuthWrite_steps (failing_at 4 forbidden_403) ''b'') = ''DENIED'' \<and>
   outcome (checkAuthWrite unwritable NewChecker ''a/b'') =
     (''DENIED'', [Now, Now, WriteFile ''/tmp/test-a/b-0'' ''test'']) \<and>
   claimed unwritable (AuthWrite_steps unwritable ''a/b'') = ''OK'' \<and>
   outcome (checkAuthDel unwritable NewChecker ''a/b'') =
     (''DENIED'', [Now, Now, WriteFile ''/tmp/test-a/b-0'' ''test'']) \<and>
   claimed unwritable (AuthDel_steps unwritable ''a/b'') = ''OK'' \<and>
   outcome (checkPutACLWithContext unwritable NewChecker ''a/b'') =
     (''DENIED'', [ExecOutput (s3api ''get-bucket-acl'' ''a/b'' []), Now,
                  WriteFile ''/tmp/acl-a/b-0.json'' []]) \<and>
   claimed unwritable (PutAcl_steps unwritable ''a/b'') = ''OK''"
  by (simp add: AuthWrite_run AuthDel_run PutACL_run claimed_def AuthWrite_steps_def
      AuthDel_steps_def PutAcl_steps_def Let_def eval_nat_numeral s3api_def testKey_def
      tmpFile_def aclFile_def failing_at_def unwritable_def quiet_def FormatInt_0)

end
